theory Spec2Isabelle
  imports Complex_Main "HOL-Library.AList" "HOL-Library.Char_ord" "HOL-Library.List_Lexorder"
begin

section \<open>Values of the language\<close>

text \<open>
  A JavaScript number is a finite value, one of the two infinities, or NaN. Finite values
  are modelled as reals: rounding, overflow and the sign of zero are not modelled.
\<close>

datatype number = NaN | PosInf | NegInf | Fin real

fun ndiv :: "number \<Rightarrow> number \<Rightarrow> number" where
  "ndiv (Fin a) (Fin b) =
     (if b = 0 then (if a = 0 then NaN else if 0 < a then PosInf else NegInf)
      else Fin (a / b))"
| "ndiv (Fin a) PosInf = Fin 0"
| "ndiv (Fin a) NegInf = Fin 0"
| "ndiv PosInf (Fin b) = (if 0 \<le> b then PosInf else NegInf)"
| "ndiv NegInf (Fin b) = (if 0 \<le> b then NegInf else PosInf)"
| "ndiv NaN y = NaN"
| "ndiv x NaN = NaN"
| "ndiv PosInf PosInf = NaN"
| "ndiv PosInf NegInf = NaN"
| "ndiv NegInf PosInf = NaN"
| "ndiv NegInf NegInf = NaN"

fun nmul :: "number \<Rightarrow> number \<Rightarrow> number" where
  "nmul (Fin a) (Fin b) = Fin (a * b)"
| "nmul NaN _ = NaN"
| "nmul _ NaN = NaN"
| "nmul PosInf (Fin b) = (if b = 0 then NaN else if 0 < b then PosInf else NegInf)"
| "nmul NegInf (Fin b) = (if b = 0 then NaN else if 0 < b then NegInf else PosInf)"
| "nmul (Fin a) PosInf = (if a = 0 then NaN else if 0 < a then PosInf else NegInf)"
| "nmul (Fin a) NegInf = (if a = 0 then NaN else if 0 < a then NegInf else PosInf)"
| "nmul PosInf PosInf = PosInf"
| "nmul NegInf NegInf = PosInf"
| "nmul PosInf NegInf = NegInf"
| "nmul NegInf PosInf = NegInf"

text \<open>\<^verbatim>\<open>Number.isFinite(x)\<close> and \<^verbatim>\<open>x > 0\<close>.\<close>

fun isFinite :: "number \<Rightarrow> bool" where
  "isFinite (Fin a) = True"
| "isFinite _ = False"

fun positive :: "number \<Rightarrow> bool" where
  "positive (Fin a) = (0 < a)"
| "positive PosInf = True"
| "positive _ = False"

text \<open>
  A value as \<^verbatim>\<open>JSON.parse\<close> or a property read gives it. An object is the list of its
  properties; the first binding of a name is the one a read sees.
\<close>

datatype jsval = JUndefined | JNull | JBool bool | JNum number | JStr string
  | JArr "jsval list" | JObj "(string \<times> jsval) list"

text \<open>What \<^verbatim>\<open>if (v)\<close>, \<^verbatim>\<open>!v\<close> and \<^verbatim>\<open>a && b\<close> test.\<close>

fun truthy :: "jsval \<Rightarrow> bool" where
  "truthy JUndefined = False"
| "truthy JNull = False"
| "truthy (JBool b) = b"
| "truthy (JNum n) = (n \<noteq> NaN \<and> n \<noteq> Fin 0)"
| "truthy (JStr s) = (s \<noteq> [])"
| "truthy (JArr xs) = True"
| "truthy (JObj kvs) = True"

text \<open>
  \<^verbatim>\<open>v.k\<close> for the property names the routes read (none of them is a built-in property of
  a string, number, boolean or array): a TypeError (\<open>None\<close>) on \<^verbatim>\<open>null\<close> and
  \<^verbatim>\<open>undefined\<close>, \<^verbatim>\<open>undefined\<close> where the property is missing.
\<close>

fun get_prop :: "jsval \<Rightarrow> string \<Rightarrow> jsval option" where
  "get_prop JUndefined k = None"
| "get_prop JNull k = None"
| "get_prop (JObj kvs) k = Some (case map_of kvs k of None \<Rightarrow> JUndefined | Some v \<Rightarrow> v)"
| "get_prop v k = Some JUndefined"

text \<open>\<^verbatim>\<open>v?.k\<close> and \<^verbatim>\<open>v?.[0]\<close>.\<close>

fun opt_prop :: "jsval \<Rightarrow> string \<Rightarrow> jsval" where
  "opt_prop (JObj kvs) k = (case map_of kvs k of None \<Rightarrow> JUndefined | Some v \<Rightarrow> v)"
| "opt_prop v k = JUndefined"

fun oindex0 :: "jsval \<Rightarrow> jsval" where
  "oindex0 (JArr xs) = (case xs of [] \<Rightarrow> JUndefined | x # _ \<Rightarrow> x)"
| "oindex0 (JStr s) = (case s of [] \<Rightarrow> JUndefined | c # _ \<Rightarrow> JStr [c])"
| "oindex0 (JObj kvs) = (case map_of kvs ''0'' of None \<Rightarrow> JUndefined | Some v \<Rightarrow> v)"
| "oindex0 v = JUndefined"

text \<open>Decimal digits of a natural number, and \<^verbatim>\<open>s.padStart(2, '0')\<close>.\<close>

fun string_of_nat :: "nat \<Rightarrow> string" where
  "string_of_nat n =
     (if n < 10 then [''0123456789'' ! n]
      else string_of_nat (n div 10) @ [''0123456789'' ! (n mod 10)])"

declare string_of_nat.simps [simp del]

definition padStart2 :: "string \<Rightarrow> string" where
  "padStart2 s = replicate (2 - length s) (CHR ''0'') @ s"

section \<open>The world a route runs in\<close>

text \<open>The outcome of \<^verbatim>\<open>await fetch(url)\<close>: a rejected promise, or a response with its status
  and its body. The body of a JSON endpoint is \<open>None\<close> when \<^verbatim>\<open>response.json()\<close> rejects.\<close>

datatype 'b fetched = NetworkError | Response nat 'b

definition ok :: "nat \<Rightarrow> bool" where
  "ok status = (200 \<le> status \<and> status \<le> 299)"

text \<open>The two patterns of the goldprice.org scraper:
  \<^verbatim>\<open>/CAD[^0-9]*([0-9,]+\.[0-9]{2})/i\<close> and \<^verbatim>\<open>/"cad"[^0-9]*([0-9,]+\.[0-9]{2})/i\<close>.\<close>

datatype pattern = CAD_price | quoted_cad_price

section \<open>The price payload and the request cache\<close>

text \<open>
  \<^verbatim>\<open>type GoldPricePayload = { price_oz, price_gram_24k, currency, provider, cached? }\<close>
  (the silver route declares the same type under the name SilverPricePayload).
\<close>

record payload =
  price_oz :: number
  price_gram_24k :: number
  currency :: string
  provider :: string
  cached :: "bool option"

text \<open>\<^verbatim>\<open>const CACHE_TTL_MS = 10 * 60 * 1000\<close>; times are milliseconds, as \<^verbatim>\<open>Date.now()\<close> gives them.\<close>

definition CACHE_TTL_MS :: int where
  "CACHE_TTL_MS = 10 * 60 * 1000"

record cache_entry =
  ts :: int
  data :: payload

type_synonym price_cache = "string \<rightharpoonup> cache_entry"

text \<open>
  \<^verbatim>\<open>getCachedPrice(key)\<close>: the first argument is the reading of \<^verbatim>\<open>Date.now()\<close>; the result is
  the returned value and the map after the call (an expired entry is deleted).
\<close>

definition getCachedPrice :: "int \<Rightarrow> string \<Rightarrow> price_cache \<Rightarrow> payload option \<times> price_cache" where
  "getCachedPrice now key priceCache =
     (case priceCache key of
        None \<Rightarrow> (None, priceCache)
      | Some c \<Rightarrow>
          if now - ts c > CACHE_TTL_MS then (None, priceCache(key := None))
          else (Some ((data c)\<lparr>cached := Some True\<rparr>), priceCache))"

definition setCachedPrice :: "int \<Rightarrow> string \<Rightarrow> payload \<Rightarrow> price_cache \<Rightarrow> price_cache" where
  "setCachedPrice now key d priceCache = priceCache(key \<mapsto> \<lparr>ts = now, data = d\<rparr>)"

section \<open>The snapshot file and the world\<close>

text \<open>
  What a route sends on success:
  \<^verbatim>\<open>{ price, price_oz, price_gram_24k, currency, provider, cached }\<close>,
  and a record of the snapshot file, which has a \<^verbatim>\<open>timestamp\<close> as well. Both are the
  objects handed to \<^verbatim>\<open>JSON.stringify\<close>, which writes a number that is not finite as
  \<^verbatim>\<open>null\<close>.
\<close>

record priced = payload +
  price :: number

record snapshot = priced +
  timestamp :: string

text \<open>
  \<^verbatim>\<open>public/gold-monthly-prices.json\<close> (\<^verbatim>\<open>silver-monthly-prices.json\<close> for the silver
  routes): missing or not JSON (\<^verbatim>\<open>readFileSync\<close> or \<^verbatim>\<open>JSON.parse\<close> throws), or an
  object from month keys to records, in the order of its keys. A file that parses is taken
  to be such an object. A record is held as the object that was handed to
  \<^verbatim>\<open>JSON.stringify\<close>; a reader that computes with a price of the file gets what
  \<^verbatim>\<open>JSON.parse\<close> reads back (\<open>parsed_number\<close> below).
\<close>

datatype file_content = Unreadable | Prices "(string \<times> snapshot) list"

text \<open>What \<^verbatim>\<open>JSON.parse\<close> reads back for a number written by \<^verbatim>\<open>JSON.stringify\<close>: the
  number, or \<^verbatim>\<open>null\<close> when it was not finite.\<close>

definition parsed_number :: "number \<Rightarrow> jsval" where
  "parsed_number n = (if isFinite n then JNum n else JNull)"

text \<open>
  What an adapter reads: the environment variables (\<open>GOLD_API_KEYS\<close> is the list of
  \<^verbatim>\<open>GOLD_API_KEY_1\<close> to \<^verbatim>\<open>GOLD_API_KEY_3\<close>), the upstream services (by the
  credential sent; \<open>api_gold\<close> is this server's own \<^verbatim>\<open>/api/gold?grams=true\<close>, by the
  debug flag), and the built-ins of the language that are not modelled (\<open>to_number\<close>:
  \<^verbatim>\<open>Number(v)\<close> and the implicit conversion of an operand, on a string, an array or an
  object; \<open>regex_capture\<close>: group 1 of \<^verbatim>\<open>html.match(pattern)\<close>). For a silver route
  the services are the XAG endpoints.
\<close>

record upstream =
  GOLD_API_KEYS :: "string option list"
  METALS_API_KEY :: "string option"
  FCS_API_KEY :: "string option"
  goldapi_io :: "string \<Rightarrow> jsval option fetched"
  metals_api :: "string \<Rightarrow> jsval option fetched"
  fcsapi :: "string \<Rightarrow> jsval option fetched"
  goldprice_org :: "string option fetched"
  fx :: "jsval option fetched"
  api_gold :: "bool \<Rightarrow> jsval option fetched"
  to_number :: "jsval \<Rightarrow> number"
  regex_capture :: "pattern \<Rightarrow> string \<Rightarrow> string option"

text \<open>
  Everything outside a route module that its code reads or writes: what the adapters
  read, the clock (read once by a route), the snapshot file of the route and whether it
  can be written, and the module's \<^verbatim>\<open>priceCache\<close>.
\<close>

record world =
  up :: upstream
  now_ms :: int
  full_year :: nat
  month0 :: nat
  iso_string :: string
  monthly_file :: file_content
  disk_writable :: bool
  priceCache :: price_cache

text \<open>\<^verbatim>\<open>Number(v)\<close>, and the conversion of the operand of a division or a product:
  \<^verbatim>\<open>undefined\<close> is NaN, \<^verbatim>\<open>null\<close> and \<^verbatim>\<open>false\<close> are 0, \<^verbatim>\<open>true\<close> is 1.\<close>

definition ToNumber :: "upstream \<Rightarrow> jsval \<Rightarrow> number" where
  "ToNumber u v =
     (case v of
        JNum n \<Rightarrow> n
      | JUndefined \<Rightarrow> NaN
      | JNull \<Rightarrow> Fin 0
      | JBool b \<Rightarrow> (if b then Fin 1 else Fin 0)
      | _ \<Rightarrow> to_number u v)"

text \<open>\<^verbatim>\<open>`${now.getFullYear()}-${String(now.getMonth() + 1).padStart(2, '0')}`\<close>\<close>

definition month_key :: "world \<Rightarrow> string" where
  "month_key w = string_of_nat (full_year w) @ ''-'' @ padStart2 (string_of_nat (month0 w + 1))"

text \<open>
  \<^verbatim>\<open>updateMonthlyPriceFile(data)\<close>: a file that cannot be read starts a fresh object; the
  current month's key is set (in place if it exists, at the end otherwise); a failing
  \<^verbatim>\<open>writeFileSync\<close> is caught and leaves the file as it was. Nothing is returned.
\<close>

definition updateMonthlyPriceFile :: "payload \<Rightarrow> world \<Rightarrow> world" where
  "updateMonthlyPriceFile d w =
     (let monthlyPrices = (case monthly_file w of Unreadable \<Rightarrow> [] | Prices m \<Rightarrow> m);
          monthKey = month_key w;
          entry = \<lparr>price_oz = price_oz d, price_gram_24k = price_gram_24k d,
                   currency = currency d, provider = provider d, cached = Some True,
                   price = price_oz d, timestamp = iso_string w\<rparr>
      in if disk_writable w
         then w\<lparr>monthly_file := Prices (AList.update monthKey entry monthlyPrices)\<rparr>
         else w)"

text \<open>
  \<^verbatim>\<open>getMonthlyFallback()\<close>: the current month's record if the file has one, else the record
  under the first key of \<^verbatim>\<open>Object.keys(monthlyPrices).sort().reverse()\<close>, else
  \<^verbatim>\<open>null\<close>; every fault is caught and gives \<^verbatim>\<open>null\<close>. The record returned has its
  provider replaced.
\<close>

definition getMonthlyFallback :: "world \<Rightarrow> snapshot option" where
  "getMonthlyFallback w =
     (case monthly_file w of
        Unreadable \<Rightarrow> None
      | Prices monthlyPrices \<Rightarrow>
          (case map_of monthlyPrices (month_key w) of
             Some r \<Rightarrow> Some (r\<lparr>provider := ''monthly-fallback''\<rparr>)
           | None \<Rightarrow>
               (case rev (sort (map fst monthlyPrices)) of
                  [] \<Rightarrow> None
                | latestMonth # _ \<Rightarrow>
                    map_option (\<lambda>r. r\<lparr>provider := ''monthly-fallback''\<rparr>)
                      (map_of monthlyPrices latestMonth))))"

section \<open>Provider adapters\<close>

text \<open>
  \<^verbatim>\<open>fetchGoldApiIo()\<close>: the loop over \<^verbatim>\<open>GOLD_API_KEYS\<close>, \<open>i\<close> the index of the first key
  of the list. A key that is unset or empty is skipped; a rejected fetch, a body that is
  not JSON and a TypeError are caught inside the loop, which goes on with the next key.
\<close>

fun goldApiIo_keys :: "upstream \<Rightarrow> nat \<Rightarrow> string option list \<Rightarrow> payload option" where
  "goldApiIo_keys u i [] = None"
| "goldApiIo_keys u i (None # keys) = goldApiIo_keys u (i + 1) keys"
| "goldApiIo_keys u i (Some key # keys) =
     (if key = [] then goldApiIo_keys u (i + 1) keys
      else
        (case goldapi_io u key of
           NetworkError \<Rightarrow> goldApiIo_keys u (i + 1) keys
         | Response status body \<Rightarrow>
             if ok status then
               (case body of
                  None \<Rightarrow> goldApiIo_keys u (i + 1) keys
                | Some d \<Rightarrow>
                    (case (get_prop d ''price'', get_prop d ''price_gram_24k'') of
                       (Some (JNum p), Some (JNum g)) \<Rightarrow>
                         Some \<lparr>price_oz = p, price_gram_24k = g, currency = ''CAD'',
                               provider = ''goldapi.io (GOLD_API_KEY_'' @ string_of_nat (i + 1) @ '')'',
                               cached = None\<rparr>
                     | _ \<Rightarrow> goldApiIo_keys u (i + 1) keys))
             else goldApiIo_keys u (i + 1) keys))"

definition fetchGoldApiIo :: "upstream \<Rightarrow> payload option" where
  "fetchGoldApiIo u = goldApiIo_keys u 0 (GOLD_API_KEYS u)"

text \<open>\<^verbatim>\<open>fetchMetalsApi()\<close>; the troy ounce is 31.1034768 grams.\<close>

definition fetchMetalsApi :: "upstream \<Rightarrow> payload option" where
  "fetchMetalsApi u =
     (case METALS_API_KEY u of
        None \<Rightarrow> None
      | Some key \<Rightarrow>
          if key = [] then None
          else
            (case metals_api u key of
               NetworkError \<Rightarrow> None
             | Response status body \<Rightarrow>
                 if \<not> ok status then None
                 else
                   (case body of
                      None \<Rightarrow> None
                    | Some d \<Rightarrow>
                        if truthy (opt_prop d ''success'') \<and> truthy (opt_prop (opt_prop d ''rates'') ''CAD'')
                        then
                          (let p = ndiv (Fin 1) (ToNumber u (opt_prop (opt_prop d ''rates'') ''CAD''));
                               g = ndiv p (Fin 31.1034768)
                           in Some \<lparr>price_oz = p, price_gram_24k = g, currency = ''CAD'',
                                    provider = ''metals-api'', cached = None\<rparr>)
                        else None)))"

text \<open>\<^verbatim>\<open>fetchFcsApi()\<close> of the gold route, of the nisab route and of the first silver route.\<close>

definition fetchFcsApi :: "upstream \<Rightarrow> payload option" where
  "fetchFcsApi u =
     (case FCS_API_KEY u of
        None \<Rightarrow> None
      | Some key \<Rightarrow>
          if key = [] then None
          else
            (case fcsapi u key of
               NetworkError \<Rightarrow> None
             | Response status body \<Rightarrow>
                 if \<not> ok status then None
                 else
                   (case body of
                      None \<Rightarrow> None
                    | Some d \<Rightarrow>
                        if truthy (opt_prop d ''status'')
                           \<and> truthy (opt_prop (oindex0 (opt_prop d ''response'')) ''price'')
                        then
                          (let p = ToNumber u (opt_prop (oindex0 (opt_prop d ''response'')) ''price'');
                               g = ndiv p (Fin 31.1034768)
                           in Some \<lparr>price_oz = p, price_gram_24k = g, currency = ''CAD'',
                                    provider = ''fcsapi'', cached = None\<rparr>)
                        else None)))"

text \<open>
  \<^verbatim>\<open>fetchGoldPriceOrg()\<close>: the loop over the two patterns; \<^verbatim>\<open>match[1].replace(/,/g, '')\<close>
  drops the commas of the captured group.
\<close>

fun goldPriceOrg_patterns :: "upstream \<Rightarrow> string \<Rightarrow> pattern list \<Rightarrow> payload option" where
  "goldPriceOrg_patterns u html [] = None"
| "goldPriceOrg_patterns u html (pat # pats) =
     (case regex_capture u pat html of
        None \<Rightarrow> goldPriceOrg_patterns u html pats
      | Some m \<Rightarrow>
          (let priceStr = filter (\<lambda>c. c \<noteq> CHR '','') m;
               p = ToNumber u (JStr priceStr)
           in if isFinite p \<and> positive p
              then Some \<lparr>price_oz = p, price_gram_24k = ndiv p (Fin 31.1034768),
                         currency = ''CAD'', provider = ''goldprice.org'', cached = None\<rparr>
              else goldPriceOrg_patterns u html pats))"

definition fetchGoldPriceOrg :: "upstream \<Rightarrow> payload option" where
  "fetchGoldPriceOrg u =
     (case goldprice_org u of
        NetworkError \<Rightarrow> None
      | Response status body \<Rightarrow>
          if \<not> ok status then None
          else
            (case body of
               None \<Rightarrow> None
             | Some html \<Rightarrow> goldPriceOrg_patterns u html [CAD_price, quoted_cad_price]))"

text \<open>
  \<^verbatim>\<open>silverData?.response?.find((r) => r.ticker === 'FCM:XAGUSD')\<close>: \<open>None\<close> is a
  TypeError (the callback reads \<^verbatim>\<open>r.ticker\<close> of \<^verbatim>\<open>null\<close>, or \<^verbatim>\<open>response\<close> has no
  \<^verbatim>\<open>find\<close>), \<open>Some JUndefined\<close> is no ticker found.
\<close>

fun find_ticker :: "jsval list \<Rightarrow> jsval option" where
  "find_ticker [] = Some JUndefined"
| "find_ticker (r # rs) =
     (case get_prop r ''ticker'' of
        None \<Rightarrow> None
      | Some t \<Rightarrow> if t = JStr ''FCM:XAGUSD'' then Some r else find_ticker rs)"

fun response_find :: "jsval \<Rightarrow> jsval option" where
  "response_find JUndefined = Some JUndefined"
| "response_find JNull = Some JUndefined"
| "response_find (JArr rs) = find_ticker rs"
| "response_find v = None"

text \<open>
  \<^verbatim>\<open>fetchFcsApi()\<close> of the second silver route (route.ts, lines 519 to 595): the ounce
  price in USD from the ticker, then the USD/CAD rate from the forex endpoint, with 1.4
  where the forex body has no truthy \<^verbatim>\<open>rate\<close>.
\<close>

definition fetchFcsApi_fx :: "upstream \<Rightarrow> payload option" where
  "fetchFcsApi_fx u =
     (case FCS_API_KEY u of
        None \<Rightarrow> None
      | Some key \<Rightarrow>
          if key = [] then None
          else
            (case fcsapi u key of
               NetworkError \<Rightarrow> None
             | Response status body \<Rightarrow>
                 if \<not> ok status then None
                 else
                   (case body of
                      None \<Rightarrow> None
                    | Some silverData \<Rightarrow>
                        (case response_find (opt_prop silverData ''response'') of
                           None \<Rightarrow> None
                         | Some silverTicker \<Rightarrow>
                             if \<not> truthy (opt_prop (opt_prop silverTicker ''active'') ''c'') then None
                             else
                               (let price_oz_usd =
                                      ToNumber u (opt_prop (opt_prop silverTicker ''active'') ''c'')
                                in case fx u of
                                     NetworkError \<Rightarrow> None
                                   | Response fx_status fx_body \<Rightarrow>
                                       if \<not> ok fx_status then None
                                       else
                                         (case fx_body of
                                            None \<Rightarrow> None
                                          | Some forexData \<Rightarrow>
                                              (let usdCadRate =
                                                     (if truthy (opt_prop forexData ''rate'')
                                                      then ToNumber u (opt_prop forexData ''rate'')
                                                      else Fin 1.4);
                                                   p = nmul price_oz_usd usdCadRate;
                                                   g = ndiv p (Fin 31.1034768)
                                               in Some \<lparr>price_oz = p, price_gram_24k = g,
                                                        currency = ''CAD'', provider = ''fcsapi'',
                                                        cached = None\<rparr>)))))))"

section \<open>The price routes\<close>

text \<open>
  The query of the request URL; \<^verbatim>\<open>searchParams.get(k)\<close> is the first value given for
  \<open>k\<close>. A response is the JSON sent and its status.
\<close>

type_synonym request = "(string \<times> string) list"

datatype response = Json nat priced | ErrorJson nat string "(string \<times> string) list option"

text \<open>What \<^verbatim>\<open>await fn()\<close> does in the provider loop: it throws (with that message), or
  returns a payload or \<^verbatim>\<open>null\<close>.\<close>

datatype outcome = Threw string | Returned "payload option"

text \<open>
  The three price routes have the same \<^verbatim>\<open>GET\<close>, up to what this record holds: the cache
  key, the provider list, whether the provider loop calls \<^verbatim>\<open>updateMonthlyPriceFile\<close> (the
  gold route and the first silver route do, the second silver route has no such call), and
  the error text of a complete failure.
\<close>

record route =
  cacheKey :: string
  providers :: "(string \<times> (upstream \<Rightarrow> outcome)) list"
  writes_snapshot :: bool
  failure_text :: string

text \<open>
  \<^verbatim>\<open>for (const { name, fn } of providers) { try { ... } catch { ... } }\<close>: \<open>Inl\<close> is the
  \<^verbatim>\<open>return\<close> inside the loop, with the world after it; \<open>Inr\<close> is the loop running to
  its end, with the \<^verbatim>\<open>errors\<close> array.
\<close>

fun provider_loop ::
  "route \<Rightarrow> bool \<Rightarrow> bool \<Rightarrow> (string \<times> (upstream \<Rightarrow> outcome)) list \<Rightarrow> (string \<times> string) list
     \<Rightarrow> world \<Rightarrow> (response \<times> world) + (string \<times> string) list" where
  "provider_loop rt grams debug [] errors w = Inr errors"
| "provider_loop rt grams debug ((name, fn) # rest) errors w =
     (case fn (up w) of
        Returned (Some result) \<Rightarrow>
          (let w1 = (if \<not> debug
                     then w\<lparr>priceCache := setCachedPrice (now_ms w) (cacheKey rt) result (priceCache w)\<rparr>
                     else w);
               w2 = (if writes_snapshot rt then updateMonthlyPriceFile result w1 else w1)
           in Inl (Json 200
                     \<lparr>price_oz = price_oz result, price_gram_24k = price_gram_24k result,
                      currency = currency result, provider = provider result,
                      cached = Some False,
                      price = (if grams then price_gram_24k result else price_oz result)\<rparr>,
                   w2))
      | Returned None \<Rightarrow>
          provider_loop rt grams debug rest
            (if debug then errors @ [(name, ''No data in response'')] else errors) w
      | Threw message \<Rightarrow>
          provider_loop rt grams debug rest
            (if debug then errors @ [(name, message)] else errors) w)"

definition GET :: "route \<Rightarrow> request \<Rightarrow> world \<Rightarrow> response \<times> world" where
  "GET rt req w =
     (let grams = (map_of req ''grams'' = Some ''true'');
          debug = (map_of req ''debug'' = Some ''1'');
          (hit, pc) = (if debug then (None, priceCache w)
                       else getCachedPrice (now_ms w) (cacheKey rt) (priceCache w));
          w0 = w\<lparr>priceCache := pc\<rparr>
      in case hit of
           Some c \<Rightarrow>
             (Json 200
                \<lparr>price_oz = price_oz c, price_gram_24k = price_gram_24k c,
                 currency = currency c, provider = provider c, cached = cached c,
                 price = (if grams then price_gram_24k c else price_oz c)\<rparr>,
              w0)
         | None \<Rightarrow>
             (case provider_loop rt grams debug (providers rt) [] w0 of
                Inl r \<Rightarrow> r
              | Inr errors \<Rightarrow>
                  (case getMonthlyFallback w0 of
                     Some fallback \<Rightarrow>
                       (Json 200
                          \<lparr>price_oz = price_oz fallback, price_gram_24k = price_gram_24k fallback,
                           currency = currency fallback, provider = provider fallback,
                           cached = Some False,
                           price = (if grams then price_gram_24k fallback else price_oz fallback)\<rparr>,
                        w0)
                   | None \<Rightarrow>
                       (ErrorJson 500 (failure_text rt) (if debug then Some errors else None), w0))))"

text \<open>The gold route (part_001), the first silver route (route.ts, lines 1 to 344) and the
  second silver route (route.ts, lines 345 to 686).\<close>

definition gold :: route where
  "gold = \<lparr>cacheKey = ''XAU-CAD'',
           providers = [(''goldapi.io'', \<lambda>u. Returned (fetchGoldApiIo u)),
                        (''metals-api'', \<lambda>u. Returned (fetchMetalsApi u)),
                        (''fcsapi'', \<lambda>u. Returned (fetchFcsApi u)),
                        (''goldprice.org'', \<lambda>u. Returned (fetchGoldPriceOrg u))],
           writes_snapshot = True,
           failure_text = ''Failed to fetch gold price from all providers''\<rparr>"

definition silver :: route where
  "silver = \<lparr>cacheKey = ''XAG-CAD'',
             providers = [(''goldapi.io'', \<lambda>u. Returned (fetchGoldApiIo u)),
                          (''metals-api'', \<lambda>u. Returned (fetchMetalsApi u)),
                          (''fcsapi'', \<lambda>u. Returned (fetchFcsApi u))],
             writes_snapshot = True,
             failure_text = ''Failed to fetch silver price from all providers''\<rparr>"

definition silver_fx :: route where
  "silver_fx = \<lparr>cacheKey = ''XAG-CAD'',
                providers = [(''goldapi.io'', \<lambda>u. Returned (fetchGoldApiIo u)),
                             (''metals-api'', \<lambda>u. Returned (fetchMetalsApi u)),
                             (''fcsapi'', \<lambda>u. Returned (fetchFcsApi_fx u))],
                writes_snapshot = False,
                failure_text = ''Failed to fetch silver price from all providers''\<rparr>"

section \<open>The nisab routes\<close>

definition NISAB_GRAMS :: nat where
  "NISAB_GRAMS = 85"

record nisab_json =
  nisab :: number
  n_price_gram_24k :: jsval
  nisab_grams :: nat
  n_currency :: jsval
  n_provider :: jsval
  n_type :: jsval
  n_cached :: jsval

datatype nisab_response = NisabJson nat nisab_json | NisabError nat jsval

text \<open>
  \<^verbatim>\<open>NextResponse.json(body, { status })\<close> throws a RangeError for a status outside 200 to
  599 and a TypeError for a status that allows no body (101, 103, 204, 205, 304).
\<close>

definition sendable :: "nat \<Rightarrow> bool" where
  "sendable status = (200 \<le> status \<and> status \<le> 599 \<and> status \<notin> {204, 205, 304})"

text \<open>
  The first nisab route (part_002, lines 1 to 58) fetches \<^verbatim>\<open>/api/gold?grams=true\<close> (with
  \<^verbatim>\<open>&debug=1\<close> in debug mode) and multiplies; every fault inside is caught and gives
  status 500, also the fault of answering with the status of the gold route when that
  status cannot be sent.
\<close>

definition nisab_GET :: "request \<Rightarrow> upstream \<Rightarrow> nisab_response" where
  "nisab_GET req u =
     (let debug = (map_of req ''debug'' = Some ''1'')
      in case api_gold u debug of
           NetworkError \<Rightarrow> NisabError 500 (JStr ''Failed to calculate nisab value'')
         | Response status body \<Rightarrow>
             if \<not> ok status then
               (if sendable status then NisabError status (JStr ''Failed to fetch gold price'')
                else NisabError 500 (JStr ''Failed to calculate nisab value''))
             else
               (case body of
                  None \<Rightarrow> NisabError 500 (JStr ''Failed to calculate nisab value'')
                | Some goldData \<Rightarrow>
                    (case get_prop goldData ''error'' of
                       None \<Rightarrow> NisabError 500 (JStr ''Failed to calculate nisab value'')
                     | Some e \<Rightarrow>
                         if truthy e then NisabError 500 e
                         else
                           NisabJson 200
                             \<lparr>nisab = nmul (ToNumber u (opt_prop goldData ''price_gram_24k''))
                                        (Fin (real NISAB_GRAMS)),
                              n_price_gram_24k = opt_prop goldData ''price_gram_24k'',
                              nisab_grams = NISAB_GRAMS,
                              n_currency = opt_prop goldData ''currency'',
                              n_provider = opt_prop goldData ''provider'',
                              n_type = JStr ''Gold'',
                              n_cached = (if truthy (opt_prop goldData ''cached'')
                                          then opt_prop goldData ''cached'' else JBool False)\<rparr>)))"

text \<open>
  The second nisab route (part_002, lines 59 to 316) has a cache, a provider loop over
  three adapters and the snapshot fallback of its own. Its adapters are those of the gold
  route with \<^verbatim>\<open>type: 'Gold'\<close> added to the payload; a record of the snapshot file has no
  \<^verbatim>\<open>type\<close>, and its gram price is what \<^verbatim>\<open>JSON.parse\<close> reads back, so that the
  product is taken with 0 where the file has \<^verbatim>\<open>null\<close>.
\<close>

definition nisab_providers :: "(string \<times> (upstream \<Rightarrow> outcome)) list" where
  "nisab_providers =
     [(''goldapi.io'', \<lambda>u. Returned (fetchGoldApiIo u)),
      (''metals-api'', \<lambda>u. Returned (fetchMetalsApi u)),
      (''fcsapi'', \<lambda>u. Returned (fetchFcsApi u))]"

fun nisab_loop ::
  "bool \<Rightarrow> (string \<times> (upstream \<Rightarrow> outcome)) list \<Rightarrow> world \<Rightarrow> (nisab_response \<times> world) option" where
  "nisab_loop debug [] w = None"
| "nisab_loop debug ((name, fn) # rest) w =
     (case fn (up w) of
        Returned (Some result) \<Rightarrow>
          Some (NisabJson 200
                  \<lparr>nisab = nmul (price_gram_24k result) (Fin (real NISAB_GRAMS)),
                   n_price_gram_24k = JNum (price_gram_24k result),
                   nisab_grams = NISAB_GRAMS,
                   n_currency = JStr (currency result),
                   n_provider = JStr (provider result),
                   n_type = JStr ''Gold'',
                   n_cached = JBool False\<rparr>,
                if \<not> debug
                then w\<lparr>priceCache := setCachedPrice (now_ms w) ''XAU-CAD'' result (priceCache w)\<rparr>
                else w)
      | Returned None \<Rightarrow> nisab_loop debug rest w
      | Threw message \<Rightarrow> nisab_loop debug rest w)"

definition nisab_GET_chain :: "request \<Rightarrow> world \<Rightarrow> nisab_response \<times> world" where
  "nisab_GET_chain req w =
     (let debug = (map_of req ''debug'' = Some ''1'');
          (hit, pc) = (if debug then (None, priceCache w)
                       else getCachedPrice (now_ms w) ''XAU-CAD'' (priceCache w));
          w0 = w\<lparr>priceCache := pc\<rparr>
      in case hit of
           Some c \<Rightarrow>
             (NisabJson 200
                \<lparr>nisab = nmul (price_gram_24k c) (Fin (real NISAB_GRAMS)),
                 n_price_gram_24k = JNum (price_gram_24k c),
                 nisab_grams = NISAB_GRAMS,
                 n_currency = JStr (currency c),
                 n_provider = JStr (provider c),
                 n_type = JStr ''Gold'',
                 n_cached = JBool True\<rparr>,
              w0)
         | None \<Rightarrow>
             (case nisab_loop debug nisab_providers w0 of
                Some r \<Rightarrow> r
              | None \<Rightarrow>
                  (case getMonthlyFallback w0 of
                     Some fallback \<Rightarrow>
                       (NisabJson 200
                          \<lparr>nisab = nmul (ToNumber (up w0)
                                          (parsed_number (price_gram_24k fallback)))
                                     (Fin (real NISAB_GRAMS)),
                           n_price_gram_24k = parsed_number (price_gram_24k fallback),
                           nisab_grams = NISAB_GRAMS,
                           n_currency = JStr (currency fallback),
                           n_provider = JStr (provider fallback),
                           n_type = JUndefined,
                           n_cached = JBool False\<rparr>,
                        w0)
                   | None \<Rightarrow>
                       (NisabError 500 (JStr ''Failed to fetch nisab value from all providers''),
                        w0))))"

text \<open>The record that the provider loop pushes to \<^verbatim>\<open>errors\<close> in debug mode for a provider
  that gave no payload.\<close>

definition diagnostic :: "upstream \<Rightarrow> string \<times> (upstream \<Rightarrow> outcome) \<Rightarrow> string \<times> string" where
  "diagnostic u nf =
     (fst nf, case snd nf u of Threw message \<Rightarrow> message | Returned r \<Rightarrow> ''No data in response'')"

section \<open>Worlds for the examples\<close>

text \<open>No credential is configured and no service answers; April 2024; no snapshot file;
  an empty cache.\<close>

definition u_down :: upstream where
  "u_down = \<lparr>GOLD_API_KEYS = [None, None, None], METALS_API_KEY = None, FCS_API_KEY = None,
             goldapi_io = (\<lambda>key. NetworkError), metals_api = (\<lambda>key. NetworkError),
             fcsapi = (\<lambda>key. NetworkError), goldprice_org = NetworkError, fx = NetworkError,
             api_gold = (\<lambda>debug. NetworkError), to_number = (\<lambda>v. NaN),
             regex_capture = (\<lambda>pat html. None)\<rparr>"

definition w_down :: world where
  "w_down = \<lparr>up = u_down, now_ms = 1712000000000, full_year = 2024, month0 = 3,
             iso_string = ''2024-04-01T19:33:20.000Z'', monthly_file = Unreadable,
             disk_writable = True, priceCache = Map.empty\<rparr>"

text \<open>Two records of a snapshot file.\<close>

definition rec_A :: snapshot where
  "rec_A = \<lparr>price_oz = Fin 6000, price_gram_24k = Fin 192.9, currency = ''CAD'',
            provider = ''metals-api'', cached = Some True, price = Fin 6000,
            timestamp = ''2024-01-15T10:00:00.000Z''\<rparr>"

definition rec_B :: snapshot where
  "rec_B = \<lparr>price_oz = Fin 6274.64, price_gram_24k = Fin 201.7344, currency = ''CAD'',
            provider = ''goldapi.io (GOLD_API_KEY_1)'', cached = Some True, price = Fin 6274.64,
            timestamp = ''2024-06-02T08:30:00.000Z''\<rparr>"

text \<open>The metals-api service answers 1 / 6274.64 for the configured key.\<close>

definition u_metals :: upstream where
  "u_metals = u_down\<lparr>METALS_API_KEY := Some ''m-key'',
      metals_api := (\<lambda>key. Response 200 (Some (JObj [(''success'', JBool True),
         (''rates'', JObj [(''CAD'', JNum (Fin (1 / 6274.64)))])])))\<rparr>"

definition w_metals :: world where
  "w_metals = w_down\<lparr>up := u_metals\<rparr>"

definition p_metals :: payload where
  "p_metals = \<lparr>price_oz = Fin 6274.64, price_gram_24k = Fin (6274.64 / 31.1034768),
               currency = ''CAD'', provider = ''metals-api'', cached = None\<rparr>"

text \<open>In April 2024 the snapshot file holds January and June 2024.\<close>

definition w_two_months :: world where
  "w_two_months = w_down\<lparr>monthly_file := Prices [(''2024-01'', rec_A), (''2024-06'', rec_B)]\<rparr>"

text \<open>In April 2024 the snapshot file holds April and June 2024.\<close>

definition w_apr :: world where
  "w_apr = w_down\<lparr>monthly_file := Prices [(''2024-04'', rec_A), (''2024-06'', rec_B)]\<rparr>"

text \<open>The first goldapi.io key is configured, and the service answers a negative ounce
  price and a gram price that is unrelated to it.\<close>

definition u_neg :: upstream where
  "u_neg = u_down\<lparr>GOLD_API_KEYS := [Some ''k1'', None, None],
      goldapi_io := (\<lambda>key. Response 200 (Some (JObj [(''price'', JNum (Fin (- 5))),
         (''price_gram_24k'', JNum (Fin 7))])))\<rparr>"

definition w_neg :: world where
  "w_neg = w_down\<lparr>up := u_neg\<rparr>"

text \<open>Only the goldprice.org page answers; the first pattern captures ``6,274.64''.\<close>

definition u_scrape :: upstream where
  "u_scrape = u_down\<lparr>goldprice_org := Response 200 (Some ''<td>CAD</td><td>6,274.64</td>''),
      regex_capture := (\<lambda>pat html. if pat = CAD_price then Some ''6,274.64'' else None),
      to_number := (\<lambda>v. if v = JStr ''6274.64'' then Fin 6274.64 else NaN)\<rparr>"

definition w_scrape :: world where
  "w_scrape = w_down\<lparr>up := u_scrape\<rparr>"

text \<open>The fcsapi ticker gives 30 USD per ounce of silver; the forex endpoint answers with
  status 503 (\<open>u_fx_503\<close>), or with status 200 and a body without a rate (\<open>u_fx_norate\<close>).\<close>

definition u_fx_503 :: upstream where
  "u_fx_503 = u_down\<lparr>FCS_API_KEY := Some ''f-key'',
      fcsapi := (\<lambda>key. Response 200 (Some (JObj [(''response'',
         JArr [JObj [(''ticker'', JStr ''FCM:XAGUSD''),
                     (''active'', JObj [(''c'', JNum (Fin 30))])]])]))),
      fx := Response 503 None\<rparr>"

definition u_fx_norate :: upstream where
  "u_fx_norate = u_fx_503\<lparr>fx := Response 200 (Some (JObj []))\<rparr>"

text \<open>This server's gold route answers the README's example.\<close>

definition gold_body :: jsval where
  "gold_body = JObj
      [(''price'', JNum (Fin 201.7344)), (''price_oz'', JNum (Fin 6274.64)),
       (''price_gram_24k'', JNum (Fin 201.7344)), (''currency'', JStr ''CAD''),
       (''provider'', JStr ''goldapi.io (GOLD_API_KEY_1)''), (''cached'', JBool False)]"

definition u_gold_ok :: upstream where
  "u_gold_ok = u_down\<lparr>api_gold := (\<lambda>debug. Response 200 (Some gold_body))\<rparr>"

text \<open>The forex endpoint answers with status 200 and the rate 0.\<close>

definition u_fx_zero :: upstream where
  "u_fx_zero = u_fx_503\<lparr>fx := Response 200 (Some (JObj [(''rate'', JNum (Fin 0))]))\<rparr>"

text \<open>The snapshot file holds a record of April 2024 that was written with a gram price
  that was not finite; and a cache that holds the payload of metals-api, one minute old.\<close>

definition w_null_price :: world where
  "w_null_price = w_down\<lparr>monthly_file := Prices [(''2024-04'',
      \<lparr>price_oz = PosInf, price_gram_24k = PosInf, currency = ''CAD'',
       provider = ''fcsapi'', cached = Some True, price = PosInf,
       timestamp = ''2024-04-01T10:00:00.000Z''\<rparr>)]\<rparr>"

definition w_cached :: world where
  "w_cached = w_down\<lparr>priceCache := [''XAU-CAD'' \<mapsto> \<lparr>ts = 1711999940000, data = p_metals\<rparr>]\<rparr>"

text \<open>This server's gold route answers with status 304.\<close>

definition u_gold_304 :: upstream where
  "u_gold_304 = u_down\<lparr>api_gold := (\<lambda>debug. Response 304 None)\<rparr>"

section \<open>Lemmas\<close>

subsection \<open>The snapshot file\<close>

lemma month_key_w_down: "month_key w_down = ''2024-04''"
  by (simp add: month_key_def w_down_def string_of_nat.simps padStart2_def)

lemma month_key_frame [simp]:
  "month_key (w\<lparr>priceCache := pc\<rparr>) = month_key w"
  "month_key (w\<lparr>disk_writable := b\<rparr>) = month_key w"
  "month_key (w\<lparr>up := u\<rparr>) = month_key w"
  "month_key (w\<lparr>monthly_file := mf\<rparr>) = month_key w"
  by (simp_all add: month_key_def)

lemma getMonthlyFallback_frame [simp]:
  "getMonthlyFallback (w\<lparr>priceCache := pc\<rparr>) = getMonthlyFallback w"
  "getMonthlyFallback (w\<lparr>disk_writable := b\<rparr>) = getMonthlyFallback w"
  "getMonthlyFallback (w\<lparr>up := u\<rparr>) = getMonthlyFallback w"
  by (simp_all add: getMonthlyFallback_def split: file_content.splits)

lemma getMonthlyFallback_provider:
  "getMonthlyFallback w = Some f \<Longrightarrow> provider f = ''monthly-fallback''"
  by (auto simp: getMonthlyFallback_def split: file_content.splits option.splits list.splits)

lemma latest_key:
  assumes "rev (sort ks) = k # rest"
  shows "k \<in> set ks \<and> (\<forall>k' \<in> set ks. k' \<le> k)"
proof -
  have eq: "sort ks = rev rest @ [k]"
    using assms by (metis rev.simps(2) rev_rev_ident)
  have "set ks = set (rev rest @ [k])"
    using eq by (metis set_sort)
  moreover have "sorted (rev rest @ [k])"
    using eq by (metis sorted_sort)
  ultimately show ?thesis
    by (auto simp: sorted_append)
qed

subsection \<open>The provider loop and the three ways out of a route\<close>

lemma provider_loop_exhausted:
  "(\<forall>nf \<in> set ps. \<forall>p. snd nf (up w) \<noteq> Returned (Some p)) \<Longrightarrow>
   provider_loop rt grams debug ps errors w
     = Inr (errors @ (if debug then map (diagnostic (up w)) ps else []))"
proof (induction ps arbitrary: errors)
  case Nil
  then show ?case by simp
next
  case (Cons nf ps)
  obtain name fn where nf: "nf = (name, fn)" by (cases nf)
  from Cons.prems nf have "\<forall>p. fn (up w) \<noteq> Returned (Some p)" by simp
  moreover from Cons.prems have "\<forall>nf \<in> set ps. \<forall>p. snd nf (up w) \<noteq> Returned (Some p)" by simp
  ultimately show ?case
    using Cons.IH nf
    by (cases "fn (up w)") (auto simp: diagnostic_def split: option.splits)
qed

lemma provider_loop_first_success:
  assumes "\<forall>nf \<in> set pre. \<forall>p. snd nf (up w) \<noteq> Returned (Some p)"
    and "fn (up w) = Returned (Some p)"
  shows "provider_loop rt grams debug (pre @ (name, fn) # post) errors w
     = Inl (Json 200
              \<lparr>price_oz = price_oz p, price_gram_24k = price_gram_24k p,
               currency = currency p, provider = provider p, cached = Some False,
               price = (if grams then price_gram_24k p else price_oz p)\<rparr>,
            (if writes_snapshot rt then updateMonthlyPriceFile p else id)
              (if \<not> debug
               then w\<lparr>priceCache := setCachedPrice (now_ms w) (cacheKey rt) p (priceCache w)\<rparr>
               else w))"
  using assms(1)
proof (induction pre arbitrary: errors)
  case Nil
  then show ?case using assms(2) by (simp add: Let_def)
next
  case (Cons nf pre)
  obtain n' f' where nf: "nf = (n', f')" by (cases nf)
  from Cons.prems nf have "\<forall>p. f' (up w) \<noteq> Returned (Some p)" by simp
  moreover from Cons.prems have "\<forall>nf \<in> set pre. \<forall>p. snd nf (up w) \<noteq> Returned (Some p)" by simp
  ultimately show ?case
    using Cons.IH nf
    by (cases "f' (up w)") (auto split: option.splits)
qed

lemma provider_loop_price:
  "provider_loop rt grams debug ps errors w = Inl (Json st r, w') \<Longrightarrow>
   price r = (if grams then price_gram_24k r else price_oz r)"
proof (induction ps arbitrary: errors)
  case Nil
  then show ?case by simp
next
  case (Cons nf ps)
  obtain name fn where nf: "nf = (name, fn)" by (cases nf)
  show ?case
  proof (cases "fn (up w)")
    case (Threw message)
    with Cons nf show ?thesis by simp
  next
    case (Returned res)
    with Cons nf show ?thesis
      by (cases res) (auto simp: Let_def)
  qed
qed

lemma fetchMetalsApi_provider:
  "fetchMetalsApi u = Some q \<Longrightarrow> provider q = ''metals-api''"
  by (auto simp: fetchMetalsApi_def Let_def split: option.splits if_splits fetched.splits)

lemma GET_live:
  assumes "providers rt = pre @ (name, fn) # post"
    and "\<forall>nf \<in> set pre. \<forall>p. snd nf (up w) \<noteq> Returned (Some p)"
    and "fn (up w) = Returned (Some p)"
    and "map_of req ''debug'' = Some ''1''
         \<or> fst (getCachedPrice (now_ms w) (cacheKey rt) (priceCache w)) = None"
  shows "GET rt req w
     = (Json 200
          \<lparr>price_oz = price_oz p, price_gram_24k = price_gram_24k p,
           currency = currency p, provider = provider p, cached = Some False,
           price = (if map_of req ''grams'' = Some ''true'' then price_gram_24k p else price_oz p)\<rparr>,
        (if writes_snapshot rt then updateMonthlyPriceFile p else id)
          (if map_of req ''debug'' = Some ''1'' then w
           else w\<lparr>priceCache := setCachedPrice (now_ms w) (cacheKey rt) p (priceCache w)\<rparr>))"
proof -
  let ?debug = "map_of req ''debug'' = Some ''1''"
  let ?w0 = "w\<lparr>priceCache := (if ?debug then priceCache w
                else snd (getCachedPrice (now_ms w) (cacheKey rt) (priceCache w)))\<rparr>"
  have pre: "\<forall>nf \<in> set pre. \<forall>p. snd nf (up ?w0) \<noteq> Returned (Some p)"
    using assms(2) by simp
  have fn: "fn (up ?w0) = Returned (Some p)"
    using assms(3) by simp
  have evict: "setCachedPrice t k p (snd (getCachedPrice t k pc)) = setCachedPrice t k p pc" for t k pc
    by (auto simp: setCachedPrice_def getCachedPrice_def split: option.splits)
  have loop: "provider_loop rt grams ?debug (pre @ (name, fn) # post) [] ?w0
     = Inl (Json 200
              \<lparr>price_oz = price_oz p, price_gram_24k = price_gram_24k p,
               currency = currency p, provider = provider p, cached = Some False,
               price = (if grams then price_gram_24k p else price_oz p)\<rparr>,
            (if writes_snapshot rt then updateMonthlyPriceFile p else id)
              (if \<not> ?debug
               then ?w0\<lparr>priceCache := setCachedPrice (now_ms ?w0) (cacheKey rt) p (priceCache ?w0)\<rparr>
               else ?w0))" for grams
    using pre fn by (rule provider_loop_first_success)
  show ?thesis
    using assms(4) loop
    unfolding GET_def Let_def assms(1)
    by (auto simp: case_prod_beta evict split: option.splits)
qed

lemma fetchMetalsApi_w_metals: "fetchMetalsApi (up w_metals) = Some p_metals"
  by (simp add: fetchMetalsApi_def w_metals_def u_metals_def u_down_def ok_def ToNumber_def
      Let_def p_metals_def)

lemma fetchGoldApiIo_w_metals: "fetchGoldApiIo (up w_metals) = None"
  by (simp add: fetchGoldApiIo_def w_metals_def u_metals_def u_down_def)

lemma priceCache_w_metals: "priceCache w_metals = Map.empty"
  by (simp add: w_metals_def w_down_def)

lemma str_cmp: "''2024-01'' < ''2024-04''" "\<not> ''2024-06'' < ''2024-04''"
  by code_simp+

lemma month_key_w_two_months: "month_key w_two_months = ''2024-04''"
  using month_key_w_down by (simp add: w_two_months_def)

lemma sort_two: "rev (sort [''2024-01'', ''2024-06'']) = [''2024-06'', ''2024-01'']"
  by code_simp

lemma updateMonthlyPriceFile_frame [simp]:
  "priceCache (updateMonthlyPriceFile p w) = priceCache w"
  "up (updateMonthlyPriceFile p w) = up w"
  "now_ms (updateMonthlyPriceFile p w) = now_ms w"
  by (simp_all add: updateMonthlyPriceFile_def Let_def)

lemma first_success_cases:
  "(\<forall>nf \<in> set ps. \<forall>p. snd nf u \<noteq> Returned (Some p))
   \<or> (\<exists>pre name fn post p. ps = pre @ (name, fn) # post
        \<and> (\<forall>nf \<in> set pre. \<forall>q. snd nf u \<noteq> Returned (Some q))
        \<and> fn u = Returned (Some p))"
proof (cases "\<exists>nf \<in> set ps. \<exists>p. snd nf u = Returned (Some p)")
  case True
  from split_list_first_prop [OF True]
  obtain pre nf post where "ps = pre @ nf # post" "\<exists>p. snd nf u = Returned (Some p)"
    "\<forall>y \<in> set pre. \<not> (\<exists>p. snd y u = Returned (Some p))"
    by blast
  then have "ps = pre @ (fst nf, snd nf) # post
        \<and> (\<forall>y \<in> set pre. \<forall>q. snd y u \<noteq> Returned (Some q))
        \<and> (\<exists>p. snd nf u = Returned (Some p))"
    by simp
  then show ?thesis by blast
next
  case False
  then show ?thesis by blast
qed

lemma GET_hit:
  assumes "map_of req ''debug'' \<noteq> Some ''1''"
    and "fst (getCachedPrice (now_ms w) (cacheKey rt) (priceCache w)) = Some c"
  shows "GET rt req w
     = (Json 200
          \<lparr>price_oz = price_oz c, price_gram_24k = price_gram_24k c, currency = currency c,
           provider = provider c, cached = Some True,
           price = (if map_of req ''grams'' = Some ''true'' then price_gram_24k c else price_oz c)\<rparr>,
        w)"
proof -
  from assms(2) obtain e where e: "priceCache w (cacheKey rt) = Some e"
    "\<not> now_ms w - ts e > CACHE_TTL_MS" "c = (data e)\<lparr>cached := Some True\<rparr>"
    by (auto simp: getCachedPrice_def split: option.splits if_splits)
  then have "getCachedPrice (now_ms w) (cacheKey rt) (priceCache w) = (Some c, priceCache w)"
    by (simp add: getCachedPrice_def)
  then show ?thesis
    using assms(1) e(3) unfolding GET_def Let_def by simp
qed

lemma GET_exhausted:
  assumes "map_of req ''debug'' = Some ''1''
         \<or> fst (getCachedPrice (now_ms w) (cacheKey rt) (priceCache w)) = None"
    and "\<forall>nf \<in> set (providers rt). \<forall>p. snd nf (up w) \<noteq> Returned (Some p)"
  shows "GET rt req w
     = ((case getMonthlyFallback w of
           Some f \<Rightarrow>
             Json 200
               \<lparr>price_oz = price_oz f, price_gram_24k = price_gram_24k f, currency = currency f,
                provider = provider f, cached = Some False,
                price = (if map_of req ''grams'' = Some ''true''
                         then price_gram_24k f else price_oz f)\<rparr>
         | None \<Rightarrow>
             ErrorJson 500 (failure_text rt)
               (if map_of req ''debug'' = Some ''1''
                then Some (map (diagnostic (up w)) (providers rt)) else None)),
        w\<lparr>priceCache := (if map_of req ''debug'' = Some ''1'' then priceCache w
             else snd (getCachedPrice (now_ms w) (cacheKey rt) (priceCache w)))\<rparr>)"
proof (cases "map_of req ''debug'' = Some ''1''")
  case True
  have loop: "provider_loop rt grams True (providers rt) [] w
      = Inr (map (diagnostic (up w)) (providers rt))" for grams
    using provider_loop_exhausted [OF assms(2), of rt grams True "[]"] by simp
  show ?thesis
    unfolding GET_def Let_def
    by (simp add: True loop split: option.splits)
next
  case False
  define pc where "pc = snd (getCachedPrice (now_ms w) (cacheKey rt) (priceCache w))"
  have gc: "getCachedPrice (now_ms w) (cacheKey rt) (priceCache w) = (None, pc)"
    using assms(1) False by (simp add: pc_def prod_eq_iff)
  have fail: "\<forall>nf \<in> set (providers rt). \<forall>p. snd nf (up (w\<lparr>priceCache := pc\<rparr>)) \<noteq> Returned (Some p)"
    using assms(2) by simp
  have loop: "provider_loop rt grams False (providers rt) [] (w\<lparr>priceCache := pc\<rparr>) = Inr []"
    for grams
    using provider_loop_exhausted [OF fail, of rt grams False "[]"] by simp
  show ?thesis
    unfolding GET_def Let_def
    by (simp add: False gc loop split: option.splits)
qed

lemma map_of_update_self: "map_of (AList.update k v al) k = Some v"
  by (simp add: update_conv')

lemma providers_gold_split:
  "providers gold
     = [(''goldapi.io'', \<lambda>u. Returned (fetchGoldApiIo u))]
       @ (''metals-api'', \<lambda>u. Returned (fetchMetalsApi u))
       # [(''fcsapi'', \<lambda>u. Returned (fetchFcsApi u)),
          (''goldprice.org'', \<lambda>u. Returned (fetchGoldPriceOrg u))]"
  by (simp add: gold_def)

lemma providers_silver_fx_split:
  "providers silver_fx
     = [(''goldapi.io'', \<lambda>u. Returned (fetchGoldApiIo u))]
       @ (''metals-api'', \<lambda>u. Returned (fetchMetalsApi u))
       # [(''fcsapi'', \<lambda>u. Returned (fetchFcsApi_fx u))]"
  by (simp add: silver_fx_def)

lemma w_metals_first_fails:
  "\<forall>nf \<in> set [(''goldapi.io'', \<lambda>u. Returned (fetchGoldApiIo u))].
      \<forall>q. snd nf (up w_metals) \<noteq> Returned (Some q)"
  by (simp add: fetchGoldApiIo_w_metals)

lemma w_metals_second: "(\<lambda>u. Returned (fetchMetalsApi u)) (up w_metals) = Returned (Some p_metals)"
  by (simp add: fetchMetalsApi_w_metals)

lemma fetchMetalsApi_gram:
  "fetchMetalsApi u = Some p \<Longrightarrow> price_gram_24k p = ndiv (price_oz p) (Fin 31.1034768)"
  by (auto simp: fetchMetalsApi_def Let_def split: option.splits if_splits fetched.splits)

lemma fetchFcsApi_gram:
  "fetchFcsApi u = Some p \<Longrightarrow>
   price_gram_24k p = ndiv (price_oz p) (Fin 31.1034768) \<and> provider p = ''fcsapi''"
  by (auto simp: fetchFcsApi_def Let_def split: option.splits if_splits fetched.splits)

lemma fetchFcsApi_fx_gram:
  "fetchFcsApi_fx u = Some p \<Longrightarrow>
   price_gram_24k p = ndiv (price_oz p) (Fin 31.1034768) \<and> provider p = ''fcsapi''"
  by (auto simp: fetchFcsApi_fx_def Let_def split: option.splits if_splits fetched.splits)

lemma goldPriceOrg_patterns_gram:
  "goldPriceOrg_patterns u html pats = Some p \<Longrightarrow>
   price_gram_24k p = ndiv (price_oz p) (Fin 31.1034768) \<and> provider p = ''goldprice.org''
   \<and> isFinite (price_oz p) \<and> positive (price_oz p)"
  by (induction pats) (auto simp: Let_def split: option.splits if_splits)

lemma fetchGoldPriceOrg_gram:
  "fetchGoldPriceOrg u = Some p \<Longrightarrow>
   price_gram_24k p = ndiv (price_oz p) (Fin 31.1034768) \<and> provider p = ''goldprice.org''
   \<and> isFinite (price_oz p) \<and> positive (price_oz p)"
  by (auto simp: fetchGoldPriceOrg_def simp del: goldPriceOrg_patterns.simps
      split: option.splits if_splits fetched.splits
      dest: goldPriceOrg_patterns_gram)

lemma finite_positive:
  "isFinite x \<Longrightarrow> positive x \<Longrightarrow> \<exists>r. x = Fin r \<and> 0 < r"
  by (cases x) auto

lemma goldApiIo_keys_step:
  "goldApiIo_keys u i (k # keys) = goldApiIo_keys u (i + 1) keys
   \<or> (\<exists>key status d p g. k = Some key \<and> goldapi_io u key = Response status (Some d)
        \<and> ok status
        \<and> get_prop d ''price'' = Some (JNum p)
        \<and> get_prop d ''price_gram_24k'' = Some (JNum g)
        \<and> goldApiIo_keys u i (k # keys)
           = Some \<lparr>price_oz = p, price_gram_24k = g, currency = ''CAD'',
                   provider = ''goldapi.io (GOLD_API_KEY_'' @ string_of_nat (i + 1) @ '')'',
                   cached = None\<rparr>)"
  by (cases k) (auto split: fetched.splits option.splits jsval.splits)

lemma goldApiIo_keys_passes:
  "goldApiIo_keys u i keys = Some p \<Longrightarrow>
   \<exists>key status d j. Some key \<in> set keys \<and> goldapi_io u key = Response status (Some d)
     \<and> ok status
     \<and> get_prop d ''price'' = Some (JNum (price_oz p))
     \<and> get_prop d ''price_gram_24k'' = Some (JNum (price_gram_24k p))
     \<and> provider p = ''goldapi.io (GOLD_API_KEY_'' @ string_of_nat j @ '')''"
proof (induction keys arbitrary: i)
  case Nil
  then show ?case by simp
next
  case (Cons k keys)
  from goldApiIo_keys_step [of u i k keys] show ?case
  proof
    assume "goldApiIo_keys u i (k # keys) = goldApiIo_keys u (i + 1) keys"
    with Cons.prems have "goldApiIo_keys u (i + 1) keys = Some p" by simp
    from Cons.IH [OF this] show ?thesis by auto
  next
    assume "\<exists>key status d p g. k = Some key \<and> goldapi_io u key = Response status (Some d)
        \<and> ok status
        \<and> get_prop d ''price'' = Some (JNum p)
        \<and> get_prop d ''price_gram_24k'' = Some (JNum g)
        \<and> goldApiIo_keys u i (k # keys)
           = Some \<lparr>price_oz = p, price_gram_24k = g, currency = ''CAD'',
                   provider = ''goldapi.io (GOLD_API_KEY_'' @ string_of_nat (i + 1) @ '')'',
                   cached = None\<rparr>"
    then obtain key status d x g where k: "k = Some key"
      and r: "goldapi_io u key = Response status (Some d)" "ok status"
        "get_prop d ''price'' = Some (JNum x)" "get_prop d ''price_gram_24k'' = Some (JNum g)"
      and res: "goldApiIo_keys u i (k # keys)
           = Some \<lparr>price_oz = x, price_gram_24k = g, currency = ''CAD'',
                   provider = ''goldapi.io (GOLD_API_KEY_'' @ string_of_nat (i + 1) @ '')'',
                   cached = None\<rparr>"
      by blast
    from res Cons.prems have p: "p = \<lparr>price_oz = x, price_gram_24k = g, currency = ''CAD'',
                   provider = ''goldapi.io (GOLD_API_KEY_'' @ string_of_nat (i + 1) @ '')'',
                   cached = None\<rparr>"
      by simp
    have "Some key \<in> set (k # keys)" using k by simp
    with r p show ?thesis
      by (intro exI [of _ key] exI [of _ status] exI [of _ d] exI [of _ "i + 1"]) simp
  qed
qed

lemma fetchGoldApiIo_passes:
  "fetchGoldApiIo u = Some p \<Longrightarrow>
   \<exists>key status d j. Some key \<in> set (GOLD_API_KEYS u)
     \<and> goldapi_io u key = Response status (Some d) \<and> ok status
     \<and> get_prop d ''price'' = Some (JNum (price_oz p))
     \<and> get_prop d ''price_gram_24k'' = Some (JNum (price_gram_24k p))
     \<and> provider p = ''goldapi.io (GOLD_API_KEY_'' @ string_of_nat j @ '')''"
  unfolding fetchGoldApiIo_def by (rule goldApiIo_keys_passes)

lemma adapters_of_routes:
  assumes "rt \<in> {gold, silver, silver_fx}" and "(name, fn) \<in> set (providers rt)"
    and "fn u = Returned (Some p)"
  shows "fetchGoldApiIo u = Some p \<or> fetchMetalsApi u = Some p \<or> fetchFcsApi u = Some p
     \<or> fetchFcsApi_fx u = Some p \<or> fetchGoldPriceOrg u = Some p"
  using assms by (auto simp: gold_def silver_def silver_fx_def)

lemma live_payload_gram:
  assumes "fetchGoldApiIo u = Some p \<or> fetchMetalsApi u = Some p \<or> fetchFcsApi u = Some p
     \<or> fetchFcsApi_fx u = Some p \<or> fetchGoldPriceOrg u = Some p"
    and "provider p \<in> {''metals-api'', ''fcsapi'', ''goldprice.org''}"
  shows "price_gram_24k p = ndiv (price_oz p) (Fin 31.1034768)
     \<and> (provider p = ''goldprice.org'' \<longrightarrow> (\<exists>x. price_oz p = Fin x \<and> 0 < x))"
proof -
  have not_goldapi: "fetchGoldApiIo u \<noteq> Some p"
  proof
    assume "fetchGoldApiIo u = Some p"
    from fetchGoldApiIo_passes [OF this] obtain j
      where "provider p = ''goldapi.io (GOLD_API_KEY_'' @ string_of_nat j @ '')''"
      by blast
    with assms(2) show False by simp
  qed
  from assms(1) not_goldapi consider "fetchMetalsApi u = Some p" | "fetchFcsApi u = Some p"
    | "fetchFcsApi_fx u = Some p" | "fetchGoldPriceOrg u = Some p"
    by blast
  then show ?thesis
  proof cases
    case 1
    from fetchMetalsApi_gram [OF 1] fetchMetalsApi_provider [OF 1] show ?thesis by simp
  next
    case 2
    from fetchFcsApi_gram [OF 2] show ?thesis by simp
  next
    case 3
    from fetchFcsApi_fx_gram [OF 3] show ?thesis by simp
  next
    case 4
    from fetchGoldPriceOrg_gram [OF 4] finite_positive [of "price_oz p"] show ?thesis by simp
  qed
qed

lemma GET_live_response:
  assumes "fst (GET rt req w) = Json st r" and "cached r = Some False"
    and "provider r \<noteq> ''monthly-fallback''"
  shows "\<exists>name fn p. (name, fn) \<in> set (providers rt) \<and> fn (up w) = Returned (Some p)
     \<and> price_oz r = price_oz p \<and> price_gram_24k r = price_gram_24k p
     \<and> provider r = provider p \<and> currency r = currency p"
proof (cases "map_of req ''debug'' \<noteq> Some ''1''
    \<and> (\<exists>c. fst (getCachedPrice (now_ms w) (cacheKey rt) (priceCache w)) = Some c)")
  case True
  then obtain c where "fst (getCachedPrice (now_ms w) (cacheKey rt) (priceCache w)) = Some c"
    by blast
  with True assms(1,2) show ?thesis
    using GET_hit [of req w rt c] by auto
next
  case False
  then have miss: "map_of req ''debug'' = Some ''1''
      \<or> fst (getCachedPrice (now_ms w) (cacheKey rt) (priceCache w)) = None"
    by auto
  from first_success_cases [of "providers rt" "up w"] show ?thesis
  proof
    assume fail: "\<forall>nf \<in> set (providers rt). \<forall>p. snd nf (up w) \<noteq> Returned (Some p)"
    show ?thesis
    proof (cases "getMonthlyFallback w")
      case None
      with assms(1) show ?thesis
        unfolding GET_exhausted [OF miss fail] by simp
    next
      case (Some f)
      with assms(1,3) getMonthlyFallback_provider [OF Some] show ?thesis
        unfolding GET_exhausted [OF miss fail] by auto
    qed
  next
    assume "\<exists>pre name fn post p. providers rt = pre @ (name, fn) # post
        \<and> (\<forall>nf \<in> set pre. \<forall>q. snd nf (up w) \<noteq> Returned (Some q))
        \<and> fn (up w) = Returned (Some p)"
    then obtain pre name fn post p where ps: "providers rt = pre @ (name, fn) # post"
      and pre: "\<forall>nf \<in> set pre. \<forall>q. snd nf (up w) \<noteq> Returned (Some q)"
      and fn: "fn (up w) = Returned (Some p)"
      by blast
    have "(name, fn) \<in> set (providers rt)" using ps by simp
    moreover from assms(1) have "price_oz r = price_oz p \<and> price_gram_24k r = price_gram_24k p
        \<and> provider r = provider p \<and> currency r = currency p"
      unfolding GET_live [OF ps pre fn miss] by auto
    ultimately show ?thesis using fn by blast
  qed
qed

lemma fetchGoldApiIo_u_neg:
  "fetchGoldApiIo u_neg
     = Some \<lparr>price_oz = Fin (- 5), price_gram_24k = Fin 7, currency = ''CAD'',
             provider = ''goldapi.io (GOLD_API_KEY_1)'', cached = None\<rparr>"
  by (simp add: fetchGoldApiIo_def u_neg_def u_down_def ok_def string_of_nat.simps)

lemma fetchGoldPriceOrg_u_scrape:
  "fetchGoldPriceOrg u_scrape
     = Some \<lparr>price_oz = Fin 6274.64, price_gram_24k = Fin (6274.64 / 31.1034768),
             currency = ''CAD'', provider = ''goldprice.org'', cached = None\<rparr>"
  by (simp add: fetchGoldPriceOrg_def u_scrape_def u_down_def ok_def ToNumber_def Let_def)

lemma u_scrape_fails:
  "fetchGoldApiIo u_scrape = None" "fetchMetalsApi u_scrape = None" "fetchFcsApi u_scrape = None"
  by (simp_all add: fetchGoldApiIo_def fetchMetalsApi_def fetchFcsApi_def u_scrape_def u_down_def)

lemma GET_gold_w_scrape:
  "fst (GET gold req w_scrape)
     = Json 200 \<lparr>price_oz = Fin 6274.64, price_gram_24k = Fin (6274.64 / 31.1034768),
         currency = ''CAD'', provider = ''goldprice.org'', cached = Some False,
         price = (if map_of req ''grams'' = Some ''true''
                  then Fin (6274.64 / 31.1034768) else Fin 6274.64)\<rparr>"
proof -
  have ps: "providers gold
     = [(''goldapi.io'', \<lambda>u. Returned (fetchGoldApiIo u)),
        (''metals-api'', \<lambda>u. Returned (fetchMetalsApi u)),
        (''fcsapi'', \<lambda>u. Returned (fetchFcsApi u))]
       @ (''goldprice.org'', \<lambda>u. Returned (fetchGoldPriceOrg u)) # []"
    by (simp add: gold_def)
  have pre: "\<forall>nf \<in> set [(''goldapi.io'', \<lambda>u. Returned (fetchGoldApiIo u)),
        (''metals-api'', \<lambda>u. Returned (fetchMetalsApi u)),
        (''fcsapi'', \<lambda>u. Returned (fetchFcsApi u))].
      \<forall>q. snd nf (up w_scrape) \<noteq> Returned (Some q)"
    by (simp add: w_scrape_def u_scrape_fails)
  have fn: "(\<lambda>u. Returned (fetchGoldPriceOrg u)) (up w_scrape)
      = Returned (Some \<lparr>price_oz = Fin 6274.64, price_gram_24k = Fin (6274.64 / 31.1034768),
             currency = ''CAD'', provider = ''goldprice.org'', cached = None\<rparr>)"
    by (simp add: w_scrape_def fetchGoldPriceOrg_u_scrape)
  have miss: "map_of req ''debug'' = Some ''1''
      \<or> fst (getCachedPrice (now_ms w_scrape) (cacheKey gold) (priceCache w_scrape)) = None"
    by (simp add: getCachedPrice_def w_scrape_def w_down_def)
  show ?thesis
    unfolding GET_live [OF ps pre fn miss] by simp
qed

lemma GET_gold_w_metals:
  "fst (GET gold req w_metals)
     = Json 200 \<lparr>price_oz = Fin 6274.64, price_gram_24k = Fin (6274.64 / 31.1034768),
         currency = ''CAD'', provider = ''metals-api'', cached = Some False,
         price = (if map_of req ''grams'' = Some ''true''
                  then Fin (6274.64 / 31.1034768) else Fin 6274.64)\<rparr>"
proof -
  have miss: "map_of req ''debug'' = Some ''1''
      \<or> fst (getCachedPrice (now_ms w_metals) (cacheKey gold) (priceCache w_metals)) = None"
    by (simp add: getCachedPrice_def priceCache_w_metals)
  show ?thesis
    unfolding GET_live [OF providers_gold_split w_metals_first_fails w_metals_second miss]
    by (simp add: p_metals_def)
qed

lemma nisab_loop_exhausted:
  "(\<forall>nf \<in> set ps. \<forall>p. snd nf (up w) \<noteq> Returned (Some p)) \<Longrightarrow> nisab_loop debug ps w = None"
proof (induction ps)
  case Nil
  then show ?case by simp
next
  case (Cons nf ps)
  obtain name fn where nf: "nf = (name, fn)" by (cases nf)
  from Cons.prems nf have "\<forall>p. fn (up w) \<noteq> Returned (Some p)" by simp
  moreover from Cons.prems have "\<forall>nf \<in> set ps. \<forall>p. snd nf (up w) \<noteq> Returned (Some p)" by simp
  ultimately show ?case
    using Cons.IH nf
    by (cases "fn (up w)") (auto split: option.splits)
qed

lemma nisab_loop_first_success:
  assumes "\<forall>nf \<in> set pre. \<forall>p. snd nf (up w) \<noteq> Returned (Some p)"
    and "fn (up w) = Returned (Some p)"
  shows "nisab_loop debug (pre @ (name, fn) # post) w
     = Some (NisabJson 200
               \<lparr>nisab = nmul (price_gram_24k p) (Fin 85),
                n_price_gram_24k = JNum (price_gram_24k p), nisab_grams = 85,
                n_currency = JStr (currency p), n_provider = JStr (provider p),
                n_type = JStr ''Gold'', n_cached = JBool False\<rparr>,
             if \<not> debug
             then w\<lparr>priceCache := setCachedPrice (now_ms w) ''XAU-CAD'' p (priceCache w)\<rparr>
             else w)"
  using assms(1)
proof (induction pre)
  case Nil
  then show ?case using assms(2) by (simp add: NISAB_GRAMS_def)
next
  case (Cons nf pre)
  obtain n' f' where nf: "nf = (n', f')" by (cases nf)
  from Cons.prems nf have "\<forall>p. f' (up w) \<noteq> Returned (Some p)" by simp
  moreover from Cons.prems have "\<forall>nf \<in> set pre. \<forall>p. snd nf (up w) \<noteq> Returned (Some p)" by simp
  ultimately show ?case
    using Cons.IH nf
    by (cases "f' (up w)") (auto split: option.splits)
qed

lemma nisab_GET_chain_hit:
  assumes "map_of req ''debug'' \<noteq> Some ''1''"
    and "fst (getCachedPrice (now_ms w) ''XAU-CAD'' (priceCache w)) = Some c"
  shows "nisab_GET_chain req w
     = (NisabJson 200
          \<lparr>nisab = nmul (price_gram_24k c) (Fin 85),
           n_price_gram_24k = JNum (price_gram_24k c), nisab_grams = 85,
           n_currency = JStr (currency c), n_provider = JStr (provider c),
           n_type = JStr ''Gold'', n_cached = JBool True\<rparr>,
        w)"
proof -
  from assms(2) obtain e where e: "priceCache w ''XAU-CAD'' = Some e"
    "\<not> now_ms w - ts e > CACHE_TTL_MS" "c = (data e)\<lparr>cached := Some True\<rparr>"
    by (auto simp: getCachedPrice_def split: option.splits if_splits)
  then have "getCachedPrice (now_ms w) ''XAU-CAD'' (priceCache w) = (Some c, priceCache w)"
    by (simp add: getCachedPrice_def)
  then show ?thesis
    using assms(1) unfolding nisab_GET_chain_def Let_def by (simp add: NISAB_GRAMS_def)
qed

lemma nisab_GET_chain_live:
  assumes "map_of req ''debug'' = Some ''1''
         \<or> fst (getCachedPrice (now_ms w) ''XAU-CAD'' (priceCache w)) = None"
    and "nisab_providers = pre @ (name, fn) # post"
    and "\<forall>nf \<in> set pre. \<forall>p. snd nf (up w) \<noteq> Returned (Some p)"
    and "fn (up w) = Returned (Some p)"
  shows "nisab_GET_chain req w
     = (NisabJson 200
          \<lparr>nisab = nmul (price_gram_24k p) (Fin 85),
           n_price_gram_24k = JNum (price_gram_24k p), nisab_grams = 85,
           n_currency = JStr (currency p), n_provider = JStr (provider p),
           n_type = JStr ''Gold'', n_cached = JBool False\<rparr>,
        if map_of req ''debug'' = Some ''1'' then w
        else w\<lparr>priceCache := setCachedPrice (now_ms w) ''XAU-CAD'' p (priceCache w)\<rparr>)"
proof (cases "map_of req ''debug'' = Some ''1''")
  case True
  have loop: "nisab_loop True (pre @ (name, fn) # post) w
     = Some (NisabJson 200
               \<lparr>nisab = nmul (price_gram_24k p) (Fin 85),
                n_price_gram_24k = JNum (price_gram_24k p), nisab_grams = 85,
                n_currency = JStr (currency p), n_provider = JStr (provider p),
                n_type = JStr ''Gold'', n_cached = JBool False\<rparr>, w)"
    using nisab_loop_first_success [where pre = pre and fn = fn and w = w and p = p
        and debug = True and name = name and post = post] assms(3,4)
    by simp
  show ?thesis
    unfolding nisab_GET_chain_def Let_def assms(2)
    by (simp add: True loop)
next
  case False
  define pc where "pc = snd (getCachedPrice (now_ms w) ''XAU-CAD'' (priceCache w))"
  have gc: "getCachedPrice (now_ms w) ''XAU-CAD'' (priceCache w) = (None, pc)"
    using assms(1) False by (simp add: pc_def prod_eq_iff)
  have pre: "\<forall>nf \<in> set pre. \<forall>p. snd nf (up (w\<lparr>priceCache := pc\<rparr>)) \<noteq> Returned (Some p)"
    using assms(3) by simp
  have fn: "fn (up (w\<lparr>priceCache := pc\<rparr>)) = Returned (Some p)"
    using assms(4) by simp
  have evict: "setCachedPrice t ''XAU-CAD'' p pc = setCachedPrice t ''XAU-CAD'' p (priceCache w)"
    for t
    by (auto simp: pc_def setCachedPrice_def getCachedPrice_def split: option.splits)
  have loop: "nisab_loop False (pre @ (name, fn) # post) (w\<lparr>priceCache := pc\<rparr>)
     = Some (NisabJson 200
               \<lparr>nisab = nmul (price_gram_24k p) (Fin 85),
                n_price_gram_24k = JNum (price_gram_24k p), nisab_grams = 85,
                n_currency = JStr (currency p), n_provider = JStr (provider p),
                n_type = JStr ''Gold'', n_cached = JBool False\<rparr>,
             w\<lparr>priceCache := setCachedPrice (now_ms w) ''XAU-CAD'' p (priceCache w)\<rparr>)"
    using nisab_loop_first_success [where pre = pre and fn = fn
        and w = "w\<lparr>priceCache := pc\<rparr>" and p = p and debug = False and name = name
        and post = post] pre fn
    by (simp add: evict)
  show ?thesis
    unfolding nisab_GET_chain_def Let_def assms(2)
    by (simp add: False gc loop)
qed

lemma nisab_GET_chain_exhausted:
  assumes "map_of req ''debug'' = Some ''1''
         \<or> fst (getCachedPrice (now_ms w) ''XAU-CAD'' (priceCache w)) = None"
    and "\<forall>nf \<in> set nisab_providers. \<forall>p. snd nf (up w) \<noteq> Returned (Some p)"
  shows "fst (nisab_GET_chain req w)
     = (case getMonthlyFallback w of
          Some f \<Rightarrow>
            NisabJson 200
              \<lparr>nisab = nmul (ToNumber (up w) (parsed_number (price_gram_24k f))) (Fin 85),
               n_price_gram_24k = parsed_number (price_gram_24k f), nisab_grams = 85,
               n_currency = JStr (currency f), n_provider = JStr (provider f),
               n_type = JUndefined, n_cached = JBool False\<rparr>
        | None \<Rightarrow> NisabError 500 (JStr ''Failed to fetch nisab value from all providers''))"
proof (cases "map_of req ''debug'' = Some ''1''")
  case True
  have loop: "nisab_loop True nisab_providers w = None"
    using nisab_loop_exhausted [OF assms(2)] .
  show ?thesis
    unfolding nisab_GET_chain_def Let_def
    by (simp add: True loop NISAB_GRAMS_def split: option.splits)
next
  case False
  define pc where "pc = snd (getCachedPrice (now_ms w) ''XAU-CAD'' (priceCache w))"
  have gc: "getCachedPrice (now_ms w) ''XAU-CAD'' (priceCache w) = (None, pc)"
    using assms(1) False by (simp add: pc_def prod_eq_iff)
  have fail: "\<forall>nf \<in> set nisab_providers.
      \<forall>p. snd nf (up (w\<lparr>priceCache := pc\<rparr>)) \<noteq> Returned (Some p)"
    using assms(2) by simp
  have loop: "nisab_loop False nisab_providers (w\<lparr>priceCache := pc\<rparr>) = None"
    using nisab_loop_exhausted [OF fail] .
  show ?thesis
    unfolding nisab_GET_chain_def Let_def
    by (simp add: False gc loop NISAB_GRAMS_def split: option.splits)
qed

lemma nisab_GET_chain_product:
  assumes "fst (nisab_GET_chain req w) = NisabJson st n"
  shows "nisab n = nmul (ToNumber (up w) (n_price_gram_24k n)) (Fin 85)"
proof (cases "map_of req ''debug'' \<noteq> Some ''1''
    \<and> (\<exists>c. fst (getCachedPrice (now_ms w) ''XAU-CAD'' (priceCache w)) = Some c)")
  case True
  then obtain c where "fst (getCachedPrice (now_ms w) ''XAU-CAD'' (priceCache w)) = Some c"
    by blast
  with True assms show ?thesis
    using nisab_GET_chain_hit [of req w c] by (auto simp: ToNumber_def)
next
  case False
  then have miss: "map_of req ''debug'' = Some ''1''
      \<or> fst (getCachedPrice (now_ms w) ''XAU-CAD'' (priceCache w)) = None"
    by auto
  from first_success_cases [of nisab_providers "up w"] show ?thesis
  proof
    assume fail: "\<forall>nf \<in> set nisab_providers. \<forall>p. snd nf (up w) \<noteq> Returned (Some p)"
    from assms show ?thesis
      unfolding nisab_GET_chain_exhausted [OF miss fail]
      by (cases "getMonthlyFallback w") auto
  next
    assume "\<exists>pre name fn post p. nisab_providers = pre @ (name, fn) # post
        \<and> (\<forall>nf \<in> set pre. \<forall>q. snd nf (up w) \<noteq> Returned (Some q))
        \<and> fn (up w) = Returned (Some p)"
    then obtain pre name fn post p where ps: "nisab_providers = pre @ (name, fn) # post"
      and pre: "\<forall>nf \<in> set pre. \<forall>q. snd nf (up w) \<noteq> Returned (Some q)"
      and fn: "fn (up w) = Returned (Some p)"
      by blast
    from assms show ?thesis
      unfolding nisab_GET_chain_live [OF miss ps pre fn]
      by (auto simp: ToNumber_def)
  qed
qed

lemma nisab_GET_answers:
  assumes "api_gold u (map_of req ''debug'' = Some ''1'') = Response status (Some goldData)"
    and "ok status" and "get_prop goldData ''error'' = Some e" and "\<not> truthy e"
  shows "nisab_GET req u
     = NisabJson 200
         \<lparr>nisab = nmul (ToNumber u (opt_prop goldData ''price_gram_24k'')) (Fin 85),
          n_price_gram_24k = opt_prop goldData ''price_gram_24k'', nisab_grams = 85,
          n_currency = opt_prop goldData ''currency'',
          n_provider = opt_prop goldData ''provider'', n_type = JStr ''Gold'',
          n_cached = (if truthy (opt_prop goldData ''cached'')
                      then opt_prop goldData ''cached'' else JBool False)\<rparr>"
  using assms unfolding nisab_GET_def Let_def by (simp add: NISAB_GRAMS_def)

lemma nisab_GET_value:
  assumes "nisab_GET req u = NisabJson st n"
  shows "\<exists>status goldData e.
      api_gold u (map_of req ''debug'' = Some ''1'') = Response status (Some goldData)
      \<and> ok status \<and> get_prop goldData ''error'' = Some e \<and> \<not> truthy e
      \<and> n_price_gram_24k n = opt_prop goldData ''price_gram_24k''
      \<and> nisab n = nmul (ToNumber u (opt_prop goldData ''price_gram_24k'')) (Fin 85)"
  using assms unfolding nisab_GET_def Let_def
  by (auto simp: NISAB_GRAMS_def split: fetched.splits option.splits if_splits)

lemma nisab_GET_refused:
  assumes "api_gold u (map_of req ''debug'' = Some ''1'') = Response status body"
    and "\<not> ok status"
  shows "nisab_GET req u
     = (if sendable status then NisabError status (JStr ''Failed to fetch gold price'')
        else NisabError 500 (JStr ''Failed to calculate nisab value''))"
  using assms unfolding nisab_GET_def Let_def by simp

lemma ToNumber_cong:
  "to_number u' = to_number u \<Longrightarrow> ToNumber u' v = ToNumber u v"
  by (simp add: ToNumber_def split: jsval.splits)

lemma nisab_GET_only_gold:
  assumes "api_gold u' = api_gold u" and "to_number u' = to_number u"
  shows "nisab_GET req u' = nisab_GET req u"
  unfolding nisab_GET_def Let_def assms(1) ToNumber_cong [OF assms(2)] ..


lemma nisab_GET_chain_w_metals:
  "nisab_GET_chain [] w_metals
     = (NisabJson 200
          \<lparr>nisab = Fin (6274.64 / 31.1034768 * 85),
           n_price_gram_24k = JNum (Fin (6274.64 / 31.1034768)), nisab_grams = 85,
           n_currency = JStr ''CAD'', n_provider = JStr ''metals-api'', n_type = JStr ''Gold'',
           n_cached = JBool False\<rparr>,
        w_metals\<lparr>priceCache := [''XAU-CAD'' \<mapsto> \<lparr>ts = 1712000000000, data = p_metals\<rparr>]\<rparr>)"
proof -
  have miss: "map_of [] ''debug'' = Some ''1''
      \<or> fst (getCachedPrice (now_ms w_metals) ''XAU-CAD'' (priceCache w_metals)) = None"
    by (simp add: getCachedPrice_def priceCache_w_metals)
  have ps: "nisab_providers
     = [(''goldapi.io'', \<lambda>u. Returned (fetchGoldApiIo u))]
       @ (''metals-api'', \<lambda>u. Returned (fetchMetalsApi u))
       # [(''fcsapi'', \<lambda>u. Returned (fetchFcsApi u))]"
    by (simp add: nisab_providers_def)
  have w: "now_ms w_metals = 1712000000000"
    by (simp add: w_metals_def w_down_def)
  show ?thesis
    unfolding nisab_GET_chain_live [OF miss ps w_metals_first_fails w_metals_second]
    by (simp add: p_metals_def w priceCache_w_metals setCachedPrice_def)
qed

lemma nisab_GET_u_gold_ok:
  "nisab_GET [] u_gold_ok
     = NisabJson 200
         \<lparr>nisab = Fin (201.7344 * 85), n_price_gram_24k = JNum (Fin 201.7344),
          nisab_grams = 85, n_currency = JStr ''CAD'',
          n_provider = JStr ''goldapi.io (GOLD_API_KEY_1)'', n_type = JStr ''Gold'',
          n_cached = JBool False\<rparr>"
  by (simp add: nisab_GET_def u_gold_ok_def gold_body_def u_down_def ok_def ToNumber_def
      NISAB_GRAMS_def)

lemma nisab_example_bounds:
  "\<bar>6274.64 / 31.1034768 - 201.7344\<bar> < (1 / 10000 :: real)"
  "\<bar>6274.64 / 31.1034768 * 85 - 17147.42\<bar> < (1 / 100 :: real)"
  "\<bar>201.7344 * 85 - 17147.42\<bar> < (1 / 100 :: real)"
  by simp_all

lemma u_down_fails:
  "fetchGoldApiIo u_down = None" "fetchMetalsApi u_down = None" "fetchFcsApi u_down = None"
  "fetchGoldPriceOrg u_down = None"
  by (simp_all add: fetchGoldApiIo_def fetchMetalsApi_def fetchFcsApi_def fetchGoldPriceOrg_def
      u_down_def)

lemma nisab_providers_fail:
  assumes "fetchGoldApiIo u = None" and "fetchMetalsApi u = None" and "fetchFcsApi u = None"
  shows "\<forall>nf \<in> set nisab_providers. \<forall>p. snd nf u \<noteq> Returned (Some p)"
  using assms by (simp add: nisab_providers_def)

lemma nisab_GET_chain_w_scrape:
  "fst (nisab_GET_chain [] w_scrape)
     = NisabError 500 (JStr ''Failed to fetch nisab value from all providers'')"
proof -
  have miss: "map_of [] ''debug'' = Some ''1''
      \<or> fst (getCachedPrice (now_ms w_scrape) ''XAU-CAD'' (priceCache w_scrape)) = None"
    by (simp add: getCachedPrice_def w_scrape_def w_down_def)
  have fail: "\<forall>nf \<in> set nisab_providers. \<forall>p. snd nf (up w_scrape) \<noteq> Returned (Some p)"
    using u_scrape_fails by (intro nisab_providers_fail) (simp_all add: w_scrape_def)
  show ?thesis
    unfolding nisab_GET_chain_exhausted [OF miss fail]
    by (simp add: getMonthlyFallback_def w_scrape_def w_down_def)
qed

lemma w_null_price_fallback:
  "getMonthlyFallback w_null_price
     = Some \<lparr>price_oz = PosInf, price_gram_24k = PosInf, currency = ''CAD'',
             provider = ''monthly-fallback'', cached = Some True, price = PosInf,
             timestamp = ''2024-04-01T10:00:00.000Z''\<rparr>"
  using month_key_w_down by (simp add: getMonthlyFallback_def w_null_price_def)

lemma w_cached_hit:
  "fst (getCachedPrice (now_ms w_cached) ''XAU-CAD'' (priceCache w_cached))
     = Some (p_metals\<lparr>cached := Some True\<rparr>)"
  by (simp add: getCachedPrice_def w_cached_def w_down_def CACHE_TTL_MS_def)

lemma fetchFcsApi_fx_answers:
  assumes "FCS_API_KEY u = Some key" and "key \<noteq> []"
    and "fcsapi u key = Response status (Some silverData)" and "ok status"
    and "response_find (opt_prop silverData ''response'') = Some silverTicker"
    and "truthy (opt_prop (opt_prop silverTicker ''active'') ''c'')"
    and "fx u = Response fx_status (Some forexData)" and "ok fx_status"
  shows "fetchFcsApi_fx u
     = Some \<lparr>price_oz = nmul (ToNumber u (opt_prop (opt_prop silverTicker ''active'') ''c''))
                (if truthy (opt_prop forexData ''rate'')
                 then ToNumber u (opt_prop forexData ''rate'') else Fin 1.4),
             price_gram_24k =
               ndiv (nmul (ToNumber u (opt_prop (opt_prop silverTicker ''active'') ''c''))
                      (if truthy (opt_prop forexData ''rate'')
                       then ToNumber u (opt_prop forexData ''rate'') else Fin 1.4))
                    (Fin 31.1034768),
             currency = ''CAD'', provider = ''fcsapi'', cached = None\<rparr>"
  using assms unfolding fetchFcsApi_fx_def Let_def by simp

lemma fetchFcsApi_fx_rate:
  assumes "fetchFcsApi_fx u = Some p"
  shows "\<exists>key status silverData silverTicker fx_status forexData.
        FCS_API_KEY u = Some key \<and> fcsapi u key = Response status (Some silverData) \<and> ok status
        \<and> response_find (opt_prop silverData ''response'') = Some silverTicker
        \<and> truthy (opt_prop (opt_prop silverTicker ''active'') ''c'')
        \<and> fx u = Response fx_status (Some forexData) \<and> ok fx_status
        \<and> price_oz p
           = nmul (ToNumber u (opt_prop (opt_prop silverTicker ''active'') ''c''))
               (if truthy (opt_prop forexData ''rate'')
                then ToNumber u (opt_prop forexData ''rate'') else Fin 1.4)"
  using assms unfolding fetchFcsApi_fx_def Let_def
  by (fastforce split: option.splits if_splits fetched.splits)

lemma fetchFcsApi_fx_fails:
  assumes "fx u = NetworkError
     \<or> (\<exists>status body. fx u = Response status body \<and> (\<not> ok status \<or> body = None))"
  shows "fetchFcsApi_fx u = None"
  using assms unfolding fetchFcsApi_fx_def Let_def
  by (auto split: option.splits fetched.splits)

lemma fetchFcsApi_fx_u_fx_503: "fetchFcsApi_fx u_fx_503 = None"
  by (simp add: fetchFcsApi_fx_def u_fx_503_def u_down_def ok_def ToNumber_def Let_def)

lemma fetchFcsApi_fx_u_fx_norate:
  "fetchFcsApi_fx u_fx_norate
     = Some \<lparr>price_oz = Fin 42, price_gram_24k = Fin (42 / 31.1034768), currency = ''CAD'',
             provider = ''fcsapi'', cached = None\<rparr>"
  by (simp add: fetchFcsApi_fx_def u_fx_norate_def u_fx_503_def u_down_def ok_def ToNumber_def
      Let_def)

section \<open>The provider chain\<close>

text \<open>
  C1. The provider loop goes through the list in order: when every provider before one
  throws or returns \<^verbatim>\<open>null\<close> and that one returns a payload, the route answers with that
  payload (\<^verbatim>\<open>cached: false\<close>), and the answer and the world after it are those of the
  route whose list ends at that provider, so nothing after it has any effect. In the three
  price routes, when goldapi.io gives nothing and metals-api returns a payload, the
  provider tag of the answer is ``metals-api'', the name of the second provider.
\<close>

theorem chain_order:
  "(providers rt = pre @ (name, fn) # post
      \<and> (\<forall>nf \<in> set pre. \<forall>q. snd nf (up w) \<noteq> Returned (Some q))
      \<and> fn (up w) = Returned (Some p)
      \<and> (map_of req ''debug'' = Some ''1''
           \<or> fst (getCachedPrice (now_ms w) (cacheKey rt) (priceCache w)) = None)
    \<longrightarrow> fst (GET rt req w)
          = Json 200
              \<lparr>price_oz = price_oz p, price_gram_24k = price_gram_24k p,
               currency = currency p, provider = provider p, cached = Some False,
               price = (if map_of req ''grams'' = Some ''true''
                        then price_gram_24k p else price_oz p)\<rparr>
        \<and> GET rt req w = GET (rt\<lparr>providers := pre @ [(name, fn)]\<rparr>) req w)
   \<and> (rt \<in> {gold, silver, silver_fx}
      \<and> fetchGoldApiIo (up w) = None
      \<and> fetchMetalsApi (up w) = Some p
      \<and> (map_of req ''debug'' = Some ''1''
           \<or> fst (getCachedPrice (now_ms w) (cacheKey rt) (priceCache w)) = None)
    \<longrightarrow> (\<exists>r. fst (GET rt req w) = Json 200 r
            \<and> provider r = fst (providers rt ! 1) \<and> provider r = ''metals-api''
            \<and> price_oz r = price_oz p \<and> price_gram_24k r = price_gram_24k p))"
proof (intro conjI impI)
  assume a: "providers rt = pre @ (name, fn) # post
      \<and> (\<forall>nf \<in> set pre. \<forall>q. snd nf (up w) \<noteq> Returned (Some q))
      \<and> fn (up w) = Returned (Some p)
      \<and> (map_of req ''debug'' = Some ''1''
           \<or> fst (getCachedPrice (now_ms w) (cacheKey rt) (priceCache w)) = None)"
  then have g: "GET rt req w
     = (Json 200
          \<lparr>price_oz = price_oz p, price_gram_24k = price_gram_24k p,
           currency = currency p, provider = provider p, cached = Some False,
           price = (if map_of req ''grams'' = Some ''true'' then price_gram_24k p else price_oz p)\<rparr>,
        (if writes_snapshot rt then updateMonthlyPriceFile p else id)
          (if map_of req ''debug'' = Some ''1'' then w
           else w\<lparr>priceCache := setCachedPrice (now_ms w) (cacheKey rt) p (priceCache w)\<rparr>))"
    using GET_live [of rt pre name fn post w p req] by blast
  then show "fst (GET rt req w)
          = Json 200
              \<lparr>price_oz = price_oz p, price_gram_24k = price_gram_24k p,
               currency = currency p, provider = provider p, cached = Some False,
               price = (if map_of req ''grams'' = Some ''true''
                        then price_gram_24k p else price_oz p)\<rparr>"
    by simp
  from a show "GET rt req w = GET (rt\<lparr>providers := pre @ [(name, fn)]\<rparr>) req w"
    using GET_live [of "rt\<lparr>providers := pre @ [(name, fn)]\<rparr>" pre name fn "[]" w p req]
    unfolding g by simp
next
  assume b: "rt \<in> {gold, silver, silver_fx}
      \<and> fetchGoldApiIo (up w) = None
      \<and> fetchMetalsApi (up w) = Some p
      \<and> (map_of req ''debug'' = Some ''1''
           \<or> fst (getCachedPrice (now_ms w) (cacheKey rt) (priceCache w)) = None)"
  then obtain post where ps: "providers rt
      = [(''goldapi.io'', \<lambda>u. Returned (fetchGoldApiIo u))]
        @ (''metals-api'', \<lambda>u. Returned (fetchMetalsApi u)) # post"
    by (auto simp: gold_def silver_def silver_fx_def)
  have "GET rt req w
     = (Json 200
          \<lparr>price_oz = price_oz p, price_gram_24k = price_gram_24k p,
           currency = currency p, provider = provider p, cached = Some False,
           price = (if map_of req ''grams'' = Some ''true'' then price_gram_24k p else price_oz p)\<rparr>,
        (if writes_snapshot rt then updateMonthlyPriceFile p else id)
          (if map_of req ''debug'' = Some ''1'' then w
           else w\<lparr>priceCache := setCachedPrice (now_ms w) (cacheKey rt) p (priceCache w)\<rparr>))"
    using b by (intro GET_live [OF ps]) auto
  moreover have "provider p = ''metals-api''"
    using b fetchMetalsApi_provider by blast
  moreover have "fst (providers rt ! 1) = ''metals-api''"
    using ps by simp
  ultimately show "\<exists>r. fst (GET rt req w) = Json 200 r
            \<and> provider r = fst (providers rt ! 1) \<and> provider r = ''metals-api''
            \<and> price_oz r = price_oz p \<and> price_gram_24k r = price_gram_24k p"
    by simp
qed

theorem chain_order_witness:
  "providers gold
     = [(''goldapi.io'', \<lambda>u. Returned (fetchGoldApiIo u))]
       @ (''metals-api'', \<lambda>u. Returned (fetchMetalsApi u))
       # [(''fcsapi'', \<lambda>u. Returned (fetchFcsApi u)),
          (''goldprice.org'', \<lambda>u. Returned (fetchGoldPriceOrg u))]
   \<and> fetchGoldApiIo (up w_metals) = None
   \<and> fetchMetalsApi (up w_metals) = Some p_metals
   \<and> fst (getCachedPrice (now_ms w_metals) (cacheKey gold) (priceCache w_metals)) = None
   \<and> fst (GET gold [] w_metals)
       = Json 200 \<lparr>price_oz = Fin 6274.64, price_gram_24k = Fin (6274.64 / 31.1034768),
           currency = ''CAD'', provider = ''metals-api'', cached = Some False,
           price = Fin 6274.64\<rparr>
   \<and> snd (GET gold [] w_metals)
       = snd (GET (gold\<lparr>providers := [(''goldapi.io'', \<lambda>u. Returned (fetchGoldApiIo u)),
                                   (''metals-api'', \<lambda>u. Returned (fetchMetalsApi u))]\<rparr>) [] w_metals)"
proof -
  have ps: "providers gold
     = [(''goldapi.io'', \<lambda>u. Returned (fetchGoldApiIo u))]
       @ (''metals-api'', \<lambda>u. Returned (fetchMetalsApi u))
       # [(''fcsapi'', \<lambda>u. Returned (fetchFcsApi u)),
          (''goldprice.org'', \<lambda>u. Returned (fetchGoldPriceOrg u))]"
    by (simp add: gold_def)
  have miss: "fst (getCachedPrice (now_ms w_metals) (cacheKey gold) (priceCache w_metals)) = None"
    by (simp add: getCachedPrice_def priceCache_w_metals)
  have pre: "\<forall>nf \<in> set [(''goldapi.io'', \<lambda>u. Returned (fetchGoldApiIo u))].
      \<forall>q. snd nf (up w_metals) \<noteq> Returned (Some q)"
    by (simp add: fetchGoldApiIo_w_metals)
  have fn: "(\<lambda>u. Returned (fetchMetalsApi u)) (up w_metals) = Returned (Some p_metals)"
    by (simp add: fetchMetalsApi_w_metals)
  show ?thesis
    using chain_order [of gold "[(''goldapi.io'', \<lambda>u. Returned (fetchGoldApiIo u))]"
        "''metals-api''" "\<lambda>u. Returned (fetchMetalsApi u)"
        "[(''fcsapi'', \<lambda>u. Returned (fetchFcsApi u)),
          (''goldprice.org'', \<lambda>u. Returned (fetchGoldPriceOrg u))]" w_metals p_metals "[]"]
      ps miss pre fn fetchGoldApiIo_w_metals fetchMetalsApi_w_metals
    by (auto simp: p_metals_def)
qed

section \<open>The snapshot fallback\<close>

text \<open>
  C2, as the code has it. The snapshot read returns the record under the current month's
  key when the file has it; otherwise the record under the greatest of all the keys of the
  file, whether that key is before or after the current month; and nothing when the file
  cannot be read or has no key. The record comes back with its provider replaced by
  ``monthly-fallback''. When the cache gives nothing (or is bypassed), every provider throws
  or returns \<^verbatim>\<open>null\<close> and the snapshot read gives a record, the route answers with the
  prices of that record, the provider tag ``monthly-fallback'' and \<^verbatim>\<open>cached: false\<close>.
\<close>

theorem snapshot_read:
  "(monthly_file w = Prices m \<and> map_of m (month_key w) = Some r
      \<longrightarrow> getMonthlyFallback w = Some (r\<lparr>provider := ''monthly-fallback''\<rparr>))
   \<and> (monthly_file w = Prices m \<and> map_of m (month_key w) = None \<and> m \<noteq> []
      \<longrightarrow> (\<exists>k r. map_of m k = Some r \<and> (\<forall>k' \<in> fst ` set m. k' \<le> k)
             \<and> getMonthlyFallback w = Some (r\<lparr>provider := ''monthly-fallback''\<rparr>)))
   \<and> (monthly_file w = Unreadable \<or> monthly_file w = Prices []
      \<longrightarrow> getMonthlyFallback w = None)
   \<and> ((map_of req ''debug'' = Some ''1''
         \<or> fst (getCachedPrice (now_ms w) (cacheKey rt) (priceCache w)) = None)
       \<and> (\<forall>nf \<in> set (providers rt). \<forall>p. snd nf (up w) \<noteq> Returned (Some p))
       \<and> getMonthlyFallback w = Some f
      \<longrightarrow> fst (GET rt req w)
           = Json 200
               \<lparr>price_oz = price_oz f, price_gram_24k = price_gram_24k f,
                currency = currency f, provider = ''monthly-fallback'', cached = Some False,
                price = (if map_of req ''grams'' = Some ''true''
                         then price_gram_24k f else price_oz f)\<rparr>)"
proof (intro conjI impI)
  assume "monthly_file w = Prices m \<and> map_of m (month_key w) = Some r"
  then show "getMonthlyFallback w = Some (r\<lparr>provider := ''monthly-fallback''\<rparr>)"
    by (simp add: getMonthlyFallback_def)
next
  assume a: "monthly_file w = Prices m \<and> map_of m (month_key w) = None \<and> m \<noteq> []"
  have "length (rev (sort (map fst m))) = length m" by simp
  with a have "rev (sort (map fst m)) \<noteq> []" by (metis length_0_conv)
  then obtain k rest where kr: "rev (sort (map fst m)) = k # rest"
    by (cases "rev (sort (map fst m))") blast+
  from latest_key [OF kr] have k: "k \<in> set (map fst m)" "\<forall>k' \<in> set (map fst m). k' \<le> k"
    by blast+
  from k(1) obtain r where r: "map_of m k = Some r"
    by (metis domD dom_map_of_conv_image_fst set_map)
  have "getMonthlyFallback w = Some (r\<lparr>provider := ''monthly-fallback''\<rparr>)"
    using a kr r by (simp add: getMonthlyFallback_def)
  with r k(2) show "\<exists>k r. map_of m k = Some r \<and> (\<forall>k' \<in> fst ` set m. k' \<le> k)
             \<and> getMonthlyFallback w = Some (r\<lparr>provider := ''monthly-fallback''\<rparr>)"
    by auto
next
  assume "monthly_file w = Unreadable \<or> monthly_file w = Prices []"
  then show "getMonthlyFallback w = None"
    by (auto simp: getMonthlyFallback_def)
next
  assume "(map_of req ''debug'' = Some ''1''
         \<or> fst (getCachedPrice (now_ms w) (cacheKey rt) (priceCache w)) = None)
       \<and> (\<forall>nf \<in> set (providers rt). \<forall>p. snd nf (up w) \<noteq> Returned (Some p))
       \<and> getMonthlyFallback w = Some f"
  then show "fst (GET rt req w)
           = Json 200
               \<lparr>price_oz = price_oz f, price_gram_24k = price_gram_24k f,
                currency = currency f, provider = ''monthly-fallback'', cached = Some False,
                price = (if map_of req ''grams'' = Some ''true''
                         then price_gram_24k f else price_oz f)\<rparr>"
    using GET_exhausted [of req w rt] getMonthlyFallback_provider [of w f] by simp
qed

theorem snapshot_read_counterexample:
  "month_key w_two_months = ''2024-04''
   \<and> monthly_file w_two_months = Prices [(''2024-01'', rec_A), (''2024-06'', rec_B)]
   \<and> ''2024-01'' < ''2024-04'' \<and> \<not> ''2024-06'' < ''2024-04''
   \<and> getMonthlyFallback w_two_months = Some (rec_B\<lparr>provider := ''monthly-fallback''\<rparr>)
   \<and> getMonthlyFallback w_two_months \<noteq> Some (rec_A\<lparr>provider := ''monthly-fallback''\<rparr>)"
proof -
  have f: "monthly_file w_two_months = Prices [(''2024-01'', rec_A), (''2024-06'', rec_B)]"
    by (simp add: w_two_months_def)
  have g: "getMonthlyFallback w_two_months = Some (rec_B\<lparr>provider := ''monthly-fallback''\<rparr>)"
    by (simp add: getMonthlyFallback_def f month_key_w_two_months sort_two)
  have ne: "rec_B\<lparr>provider := ''monthly-fallback''\<rparr> \<noteq> rec_A\<lparr>provider := ''monthly-fallback''\<rparr>"
    by (simp add: rec_A_def rec_B_def)
  show ?thesis
    using f g ne month_key_w_two_months str_cmp by simp
qed

theorem snapshot_read_witness:
  "monthly_file w_apr = Prices [(''2024-04'', rec_A), (''2024-06'', rec_B)]
   \<and> map_of [(''2024-04'', rec_A), (''2024-06'', rec_B)] (month_key w_apr) = Some rec_A
   \<and> getMonthlyFallback w_apr = Some (rec_A\<lparr>provider := ''monthly-fallback''\<rparr>)
   \<and> monthly_file w_two_months = Prices [(''2024-01'', rec_A), (''2024-06'', rec_B)]
   \<and> map_of [(''2024-01'', rec_A), (''2024-06'', rec_B)] (month_key w_two_months) = None
   \<and> (\<exists>k r. map_of [(''2024-01'', rec_A), (''2024-06'', rec_B)] k = Some r
         \<and> (\<forall>k' \<in> fst ` set [(''2024-01'', rec_A), (''2024-06'', rec_B)]. k' \<le> k)
         \<and> getMonthlyFallback w_two_months = Some (r\<lparr>provider := ''monthly-fallback''\<rparr>))
   \<and> monthly_file w_down = Unreadable
   \<and> getMonthlyFallback w_down = None
   \<and> fetchGoldApiIo (up w_two_months) = None \<and> fetchMetalsApi (up w_two_months) = None
   \<and> fetchFcsApi (up w_two_months) = None \<and> fetchGoldPriceOrg (up w_two_months) = None
   \<and> fst (getCachedPrice (now_ms w_two_months) (cacheKey gold) (priceCache w_two_months)) = None
   \<and> getMonthlyFallback w_two_months = Some (rec_B\<lparr>provider := ''monthly-fallback''\<rparr>)
   \<and> fst (GET gold [] w_two_months)
       = Json 200 \<lparr>price_oz = Fin 6274.64, price_gram_24k = Fin 201.7344, currency = ''CAD'',
           provider = ''monthly-fallback'', cached = Some False, price = Fin 6274.64\<rparr>"
proof -
  have f1: "monthly_file w_apr = Prices [(''2024-04'', rec_A), (''2024-06'', rec_B)]"
    by (simp add: w_apr_def)
  have k1: "month_key w_apr = ''2024-04''"
    using month_key_w_down by (simp add: w_apr_def)
  have f2: "monthly_file w_two_months = Prices [(''2024-01'', rec_A), (''2024-06'', rec_B)]"
    by (simp add: w_two_months_def)
  have f3: "monthly_file w_down = Unreadable"
    by (simp add: w_down_def)
  have adapters: "fetchGoldApiIo (up w_two_months) = None" "fetchMetalsApi (up w_two_months) = None"
    "fetchFcsApi (up w_two_months) = None" "fetchGoldPriceOrg (up w_two_months) = None"
    by (simp_all add: w_two_months_def w_down_def u_down_def fetchGoldApiIo_def
        fetchMetalsApi_def fetchFcsApi_def fetchGoldPriceOrg_def)
  have fail: "\<forall>nf \<in> set (providers gold). \<forall>p. snd nf (up w_two_months) \<noteq> Returned (Some p)"
    by (simp add: gold_def adapters)
  have miss: "fst (getCachedPrice (now_ms w_two_months) (cacheKey gold) (priceCache w_two_months))
      = None"
    by (simp add: getCachedPrice_def w_two_months_def w_down_def)
  have g: "getMonthlyFallback w_two_months = Some (rec_B\<lparr>provider := ''monthly-fallback''\<rparr>)"
    by (simp add: getMonthlyFallback_def f2 month_key_w_two_months sort_two)
  show ?thesis
    using snapshot_read [of w_apr "[(''2024-04'', rec_A), (''2024-06'', rec_B)]" rec_A]
      snapshot_read [of w_two_months "[(''2024-01'', rec_A), (''2024-06'', rec_B)]" _ "[]" gold
        "rec_B\<lparr>provider := ''monthly-fallback''\<rparr>"]
      snapshot_read [of w_down]
      f1 k1 f2 f3 month_key_w_two_months adapters fail miss g
    by (simp add: rec_B_def)
qed

section \<open>The per-gram price\<close>

text \<open>
  C3, as the code has it. In a live success response of a price route (\<^verbatim>\<open>cached: false\<close>)
  whose provider tag is ``metals-api'', ``fcsapi'' or ``goldprice.org'', the gram price is
  the ounce price divided by 31.1034768, and a ``goldprice.org'' response has a finite,
  strictly positive ounce price. A goldapi.io payload carries the \<^verbatim>\<open>price\<close> and the
  \<^verbatim>\<open>price_gram_24k\<close> of the upstream body as they are: nothing compares the two.
\<close>

theorem per_gram_price:
  "(rt \<in> {gold, silver, silver_fx} \<and> fst (GET rt req w) = Json st r \<and> cached r = Some False
      \<and> provider r \<in> {''metals-api'', ''fcsapi'', ''goldprice.org''}
    \<longrightarrow> price_gram_24k r = ndiv (price_oz r) (Fin 31.1034768)
        \<and> (provider r = ''goldprice.org'' \<longrightarrow> (\<exists>x. price_oz r = Fin x \<and> 0 < x)))
   \<and> (fetchGoldApiIo u = Some p
    \<longrightarrow> (\<exists>key status d. Some key \<in> set (GOLD_API_KEYS u)
           \<and> goldapi_io u key = Response status (Some d)
           \<and> get_prop d ''price'' = Some (JNum (price_oz p))
           \<and> get_prop d ''price_gram_24k'' = Some (JNum (price_gram_24k p))))"
proof (rule conjI; rule impI)
  assume a: "rt \<in> {gold, silver, silver_fx} \<and> fst (GET rt req w) = Json st r
      \<and> cached r = Some False
      \<and> provider r \<in> {''metals-api'', ''fcsapi'', ''goldprice.org''}"
  then have "provider r \<noteq> ''monthly-fallback''" by auto
  with a GET_live_response [of rt req w st r]
  obtain name fn q where nf: "(name, fn) \<in> set (providers rt)" "fn (up w) = Returned (Some q)"
    and eq: "price_oz r = price_oz q" "price_gram_24k r = price_gram_24k q"
      "provider r = provider q"
    by blast
  from a nf have "fetchGoldApiIo (up w) = Some q \<or> fetchMetalsApi (up w) = Some q
     \<or> fetchFcsApi (up w) = Some q \<or> fetchFcsApi_fx (up w) = Some q
     \<or> fetchGoldPriceOrg (up w) = Some q"
    using adapters_of_routes [of rt name fn "up w" q] by blast
  moreover from a eq have "provider q \<in> {''metals-api'', ''fcsapi'', ''goldprice.org''}"
    by simp
  ultimately have "price_gram_24k q = ndiv (price_oz q) (Fin 31.1034768)
     \<and> (provider q = ''goldprice.org'' \<longrightarrow> (\<exists>x. price_oz q = Fin x \<and> 0 < x))"
    by (rule live_payload_gram)
  with eq show "price_gram_24k r = ndiv (price_oz r) (Fin 31.1034768)
        \<and> (provider r = ''goldprice.org'' \<longrightarrow> (\<exists>x. price_oz r = Fin x \<and> 0 < x))"
    by simp
next
  assume "fetchGoldApiIo u = Some p"
  from fetchGoldApiIo_passes [OF this]
  show "\<exists>key status d. Some key \<in> set (GOLD_API_KEYS u)
           \<and> goldapi_io u key = Response status (Some d)
           \<and> get_prop d ''price'' = Some (JNum (price_oz p))
           \<and> get_prop d ''price_gram_24k'' = Some (JNum (price_gram_24k p))"
    by blast
qed

theorem per_gram_price_counterexample:
  "fst (GET gold [] w_neg)
     = Json 200 \<lparr>price_oz = Fin (- 5), price_gram_24k = Fin 7, currency = ''CAD'',
         provider = ''goldapi.io (GOLD_API_KEY_1)'', cached = Some False, price = Fin (- 5)\<rparr>
   \<and> \<not> positive (Fin (- 5))
   \<and> ndiv (Fin (- 5)) (Fin 31.1034768) = Fin (- 5 / 31.1034768)
   \<and> \<bar>7 - (- 5 / 31.1034768)\<bar> > (7 :: real)"
proof -
  have ps: "providers gold
     = [] @ (''goldapi.io'', \<lambda>u. Returned (fetchGoldApiIo u))
       # [(''metals-api'', \<lambda>u. Returned (fetchMetalsApi u)),
          (''fcsapi'', \<lambda>u. Returned (fetchFcsApi u)),
          (''goldprice.org'', \<lambda>u. Returned (fetchGoldPriceOrg u))]"
    by (simp add: gold_def)
  have pre: "\<forall>nf \<in> set []. \<forall>q. snd nf (up w_neg) \<noteq> Returned (Some q)" by simp
  have fn: "(\<lambda>u. Returned (fetchGoldApiIo u)) (up w_neg)
      = Returned (Some \<lparr>price_oz = Fin (- 5), price_gram_24k = Fin 7, currency = ''CAD'',
             provider = ''goldapi.io (GOLD_API_KEY_1)'', cached = None\<rparr>)"
    by (simp add: w_neg_def fetchGoldApiIo_u_neg)
  have miss: "map_of [] ''debug'' = Some ''1''
      \<or> fst (getCachedPrice (now_ms w_neg) (cacheKey gold) (priceCache w_neg)) = None"
    by (simp add: getCachedPrice_def w_neg_def w_down_def)
  show ?thesis
    unfolding GET_live [OF ps pre fn miss] by simp
qed

theorem per_gram_price_witness:
  "gold \<in> {gold, silver, silver_fx}
   \<and> fst (GET gold [] w_metals)
       = Json 200 \<lparr>price_oz = Fin 6274.64, price_gram_24k = Fin (6274.64 / 31.1034768),
           currency = ''CAD'', provider = ''metals-api'', cached = Some False,
           price = Fin 6274.64\<rparr>
   \<and> ''metals-api'' \<in> {''metals-api'', ''fcsapi'', ''goldprice.org''}
   \<and> Fin (6274.64 / 31.1034768) = ndiv (Fin 6274.64) (Fin 31.1034768)
   \<and> fst (GET gold [] w_scrape)
       = Json 200 \<lparr>price_oz = Fin 6274.64, price_gram_24k = Fin (6274.64 / 31.1034768),
           currency = ''CAD'', provider = ''goldprice.org'', cached = Some False,
           price = Fin 6274.64\<rparr>
   \<and> (\<exists>x. Fin 6274.64 = Fin x \<and> 0 < x)
   \<and> fetchGoldApiIo u_neg
       = Some \<lparr>price_oz = Fin (- 5), price_gram_24k = Fin 7, currency = ''CAD'',
               provider = ''goldapi.io (GOLD_API_KEY_1)'', cached = None\<rparr>
   \<and> (\<exists>key status d. Some key \<in> set (GOLD_API_KEYS u_neg)
         \<and> goldapi_io u_neg key = Response status (Some d)
         \<and> get_prop d ''price'' = Some (JNum (Fin (- 5)))
         \<and> get_prop d ''price_gram_24k'' = Some (JNum (Fin 7)))"
  using per_gram_price [where rt = gold and req = "[]" and w = w_metals and st = 200
      and r = "\<lparr>price_oz = Fin 6274.64, price_gram_24k = Fin (6274.64 / 31.1034768),
           currency = ''CAD'', provider = ''metals-api'', cached = Some False,
           price = Fin 6274.64\<rparr>"
      and u = u_neg
      and p = "\<lparr>price_oz = Fin (- 5), price_gram_24k = Fin 7, currency = ''CAD'',
               provider = ''goldapi.io (GOLD_API_KEY_1)'', cached = None\<rparr>"]
    per_gram_price [where rt = gold and req = "[]" and w = w_scrape and st = 200
      and r = "\<lparr>price_oz = Fin 6274.64, price_gram_24k = Fin (6274.64 / 31.1034768),
           currency = ''CAD'', provider = ''goldprice.org'', cached = Some False,
           price = Fin 6274.64\<rparr>"]
    GET_gold_w_metals [of "[]"] GET_gold_w_scrape [of "[]"] fetchGoldApiIo_u_neg
  by simp

section \<open>The request cache\<close>

text \<open>
  C4. A read returns the stored payload (marked as cached) exactly when an entry exists and
  its age \<open>now - ts\<close> is at most 600 seconds (600000 ms); a read of an older entry returns
  nothing and deletes the entry, a read of a fresh one leaves the map as it is; a write
  replaces whatever was stored under the key by the new payload with the time of the write.
\<close>

theorem cache_get_set:
  "(fst (getCachedPrice now key pc) \<noteq> None
      \<longleftrightarrow> (\<exists>c. pc key = Some c \<and> now - ts c \<le> 600 * 1000))
   \<and> (\<forall>c. pc key = Some c \<and> now - ts c \<le> 600 * 1000 \<longrightarrow>
         getCachedPrice now key pc = (Some ((data c)\<lparr>cached := Some True\<rparr>), pc))
   \<and> (\<forall>c. pc key = Some c \<and> now - ts c > 600 * 1000 \<longrightarrow>
         getCachedPrice now key pc = (None, pc(key := None)))
   \<and> setCachedPrice now key d pc key = Some \<lparr>ts = now, data = d\<rparr>
   \<and> (\<forall>k. k \<noteq> key \<longrightarrow> setCachedPrice now key d pc k = pc k)
   \<and> fst (getCachedPrice (now + 600 * 1000) key (setCachedPrice now key d pc))
       = Some (d\<lparr>cached := Some True\<rparr>)
   \<and> fst (getCachedPrice (now + 600 * 1000 + 1) key (setCachedPrice now key d pc)) = None"
  by (auto simp: getCachedPrice_def setCachedPrice_def CACHE_TTL_MS_def split: option.splits)

theorem cache_get_set_witness:
  "[''XAU-CAD'' \<mapsto> \<lparr>ts = 100000, data = \<lparr>price_oz = Fin 6274.64, price_gram_24k = Fin 201.7344,
        currency = ''CAD'', provider = ''metals-api'', cached = None\<rparr>\<rparr>] ''XAU-CAD''
     = Some \<lparr>ts = 100000, data = \<lparr>price_oz = Fin 6274.64, price_gram_24k = Fin 201.7344,
        currency = ''CAD'', provider = ''metals-api'', cached = None\<rparr>\<rparr>
   \<and> (700000::int) - 100000 \<le> 600 * 1000
   \<and> fst (getCachedPrice 700000 ''XAU-CAD''
        [''XAU-CAD'' \<mapsto> \<lparr>ts = 100000, data = \<lparr>price_oz = Fin 6274.64, price_gram_24k = Fin 201.7344,
        currency = ''CAD'', provider = ''metals-api'', cached = None\<rparr>\<rparr>])
     = Some \<lparr>price_oz = Fin 6274.64, price_gram_24k = Fin 201.7344,
        currency = ''CAD'', provider = ''metals-api'', cached = Some True\<rparr>
   \<and> (700001::int) - 100000 > 600 * 1000
   \<and> getCachedPrice 700001 ''XAU-CAD''
        [''XAU-CAD'' \<mapsto> \<lparr>ts = 100000, data = \<lparr>price_oz = Fin 6274.64, price_gram_24k = Fin 201.7344,
        currency = ''CAD'', provider = ''metals-api'', cached = None\<rparr>\<rparr>]
     = (None, Map.empty)"
  using cache_get_set [of 700000 "''XAU-CAD''"
      "[''XAU-CAD'' \<mapsto> \<lparr>ts = 100000, data = \<lparr>price_oz = Fin 6274.64, price_gram_24k = Fin 201.7344,
        currency = ''CAD'', provider = ''metals-api'', cached = None\<rparr>\<rparr>]"]
    cache_get_set [of 700001 "''XAU-CAD''"
      "[''XAU-CAD'' \<mapsto> \<lparr>ts = 100000, data = \<lparr>price_oz = Fin 6274.64, price_gram_24k = Fin 201.7344,
        currency = ''CAD'', provider = ''metals-api'', cached = None\<rparr>\<rparr>]"]
  by simp

section \<open>Debug mode\<close>

text \<open>
  C5, as the code has it. In debug mode the response does not depend on the cache, and the
  cache after the request is the cache before it: it is neither read nor written. After a
  provider returned a payload, the world is the one that \<^verbatim>\<open>updateMonthlyPriceFile\<close>
  leaves in the gold route and the first silver route (with the current month's record
  written when the file can be written), and is unchanged in the second silver route, which
  has no snapshot write.
\<close>

theorem debug_mode:
  assumes "map_of req ''debug'' = Some ''1''"
  shows "fst (GET rt req (w\<lparr>priceCache := pc\<rparr>)) = fst (GET rt req w)
   \<and> priceCache (snd (GET rt req w)) = priceCache w
   \<and> (providers rt = pre @ (name, fn) # post
        \<and> (\<forall>nf \<in> set pre. \<forall>q. snd nf (up w) \<noteq> Returned (Some q))
        \<and> fn (up w) = Returned (Some p)
      \<longrightarrow> snd (GET rt req w) = (if writes_snapshot rt then updateMonthlyPriceFile p w else w))
   \<and> writes_snapshot gold \<and> writes_snapshot silver \<and> \<not> writes_snapshot silver_fx
   \<and> (disk_writable w \<longrightarrow>
        (\<exists>m. monthly_file (updateMonthlyPriceFile p w) = Prices m
           \<and> map_of m (month_key w)
              = Some \<lparr>price_oz = price_oz p, price_gram_24k = price_gram_24k p,
                      currency = currency p, provider = provider p, cached = Some True,
                      price = price_oz p, timestamp = iso_string w\<rparr>))"
proof -
  let ?w' = "w\<lparr>priceCache := pc\<rparr>"
  have miss: "map_of req ''debug'' = Some ''1''
      \<or> fst (getCachedPrice (now_ms v) (cacheKey rt) (priceCache v)) = None" for v :: world
    using assms by simp
  have read_write: "fst (GET rt req ?w') = fst (GET rt req w)
      \<and> priceCache (snd (GET rt req w)) = priceCache w"
    using first_success_cases [of "providers rt" "up w"]
  proof
    assume fail: "\<forall>nf \<in> set (providers rt). \<forall>p. snd nf (up w) \<noteq> Returned (Some p)"
    then have fail': "\<forall>nf \<in> set (providers rt). \<forall>p. snd nf (up ?w') \<noteq> Returned (Some p)"
      by simp
    show ?thesis
      unfolding GET_exhausted [OF miss fail] GET_exhausted [OF miss fail']
      by (simp add: assms split: option.splits)
  next
    assume "\<exists>pre name fn post p. providers rt = pre @ (name, fn) # post
        \<and> (\<forall>nf \<in> set pre. \<forall>q. snd nf (up w) \<noteq> Returned (Some q))
        \<and> fn (up w) = Returned (Some p)"
    then obtain pre name fn post q where ps: "providers rt = pre @ (name, fn) # post"
      and pre: "\<forall>nf \<in> set pre. \<forall>q. snd nf (up w) \<noteq> Returned (Some q)"
      and fn: "fn (up w) = Returned (Some q)"
      by blast
    from pre have pre': "\<forall>nf \<in> set pre. \<forall>q. snd nf (up ?w') \<noteq> Returned (Some q)" by simp
    from fn have fn': "fn (up ?w') = Returned (Some q)" by simp
    show ?thesis
      unfolding GET_live [OF ps pre fn miss] GET_live [OF ps pre' fn' miss]
      by (simp add: assms)
  qed
  have through: "providers rt = pre @ (name, fn) # post
        \<and> (\<forall>nf \<in> set pre. \<forall>q. snd nf (up w) \<noteq> Returned (Some q))
        \<and> fn (up w) = Returned (Some p)
      \<longrightarrow> snd (GET rt req w) = (if writes_snapshot rt then updateMonthlyPriceFile p w else w)"
  proof
    assume a: "providers rt = pre @ (name, fn) # post
        \<and> (\<forall>nf \<in> set pre. \<forall>q. snd nf (up w) \<noteq> Returned (Some q))
        \<and> fn (up w) = Returned (Some p)"
    then have ps: "providers rt = pre @ (name, fn) # post"
      and pre: "\<forall>nf \<in> set pre. \<forall>q. snd nf (up w) \<noteq> Returned (Some q)"
      and fn: "fn (up w) = Returned (Some p)"
      by blast+
    show "snd (GET rt req w) = (if writes_snapshot rt then updateMonthlyPriceFile p w else w)"
      unfolding GET_live [OF ps pre fn miss] by (simp add: assms)
  qed
  have flags: "writes_snapshot gold \<and> writes_snapshot silver \<and> \<not> writes_snapshot silver_fx"
    by (simp add: gold_def silver_def silver_fx_def)
  have written: "disk_writable w \<longrightarrow>
        (\<exists>m. monthly_file (updateMonthlyPriceFile p w) = Prices m
           \<and> map_of m (month_key w)
              = Some \<lparr>price_oz = price_oz p, price_gram_24k = price_gram_24k p,
                      currency = currency p, provider = provider p, cached = Some True,
                      price = price_oz p, timestamp = iso_string w\<rparr>)"
    by (simp add: updateMonthlyPriceFile_def Let_def map_of_update_self)
  from read_write through flags written show ?thesis by blast
qed

theorem debug_mode_counterexample:
  "fst (GET gold [(''debug'', ''1'')] w_metals)
     = Json 200 \<lparr>price_oz = Fin 6274.64, price_gram_24k = Fin (6274.64 / 31.1034768),
         currency = ''CAD'', provider = ''metals-api'', cached = Some False,
         price = Fin 6274.64\<rparr>
   \<and> priceCache w_metals ''XAU-CAD'' = None
   \<and> priceCache (snd (GET gold [(''debug'', ''1'')] w_metals)) ''XAU-CAD'' = None
   \<and> priceCache (snd (GET gold [] w_metals)) ''XAU-CAD''
       = Some \<lparr>ts = 1712000000000, data = p_metals\<rparr>
   \<and> fst (GET silver_fx [(''debug'', ''1'')] w_metals)
       = Json 200 \<lparr>price_oz = Fin 6274.64, price_gram_24k = Fin (6274.64 / 31.1034768),
           currency = ''CAD'', provider = ''metals-api'', cached = Some False,
           price = Fin 6274.64\<rparr>
   \<and> monthly_file w_metals = Unreadable
   \<and> monthly_file (snd (GET silver_fx [(''debug'', ''1'')] w_metals)) = Unreadable"
proof -
  have miss: "map_of req ''debug'' = Some ''1''
      \<or> fst (getCachedPrice (now_ms w_metals) (cacheKey rt) (priceCache w_metals)) = None"
    for req rt
    by (simp add: getCachedPrice_def priceCache_w_metals)
  have w: "now_ms w_metals = 1712000000000" "monthly_file w_metals = Unreadable"
    by (simp_all add: w_metals_def w_down_def)
  show ?thesis
    unfolding GET_live [OF providers_gold_split w_metals_first_fails w_metals_second miss]
      GET_live [OF providers_silver_fx_split w_metals_first_fails w_metals_second miss]
    by (simp add: p_metals_def priceCache_w_metals w gold_def silver_fx_def setCachedPrice_def)
qed

theorem debug_mode_witness:
  "map_of [(''debug'', ''1'')] ''debug'' = Some ''1''
   \<and> fst (GET gold [(''debug'', ''1'')]
        (w_metals\<lparr>priceCache := [''XAU-CAD'' \<mapsto> \<lparr>ts = 1712000000000, data = p_metals\<rparr>]\<rparr>))
      = fst (GET gold [(''debug'', ''1'')] w_metals)
   \<and> fetchGoldApiIo (up w_metals) = None \<and> fetchMetalsApi (up w_metals) = Some p_metals
   \<and> snd (GET gold [(''debug'', ''1'')] w_metals) = updateMonthlyPriceFile p_metals w_metals
   \<and> disk_writable w_metals
   \<and> (\<exists>m. monthly_file (updateMonthlyPriceFile p_metals w_metals) = Prices m
        \<and> map_of m (month_key w_metals)
           = Some \<lparr>price_oz = Fin 6274.64, price_gram_24k = Fin (6274.64 / 31.1034768),
                   currency = ''CAD'', provider = ''metals-api'', cached = Some True,
                   price = Fin 6274.64, timestamp = ''2024-04-01T19:33:20.000Z''\<rparr>)"
proof -
  have d: "map_of [(''debug'', ''1'')] ''debug'' = Some ''1''" by simp
  have w: "disk_writable w_metals" "iso_string w_metals = ''2024-04-01T19:33:20.000Z''"
    by (simp_all add: w_metals_def w_down_def)
  show ?thesis
    using debug_mode [OF d, where rt = gold and w = w_metals
        and pc = "[''XAU-CAD'' \<mapsto> \<lparr>ts = 1712000000000, data = p_metals\<rparr>]"
        and pre = "[(''goldapi.io'', \<lambda>u. Returned (fetchGoldApiIo u))]"
        and name = "''metals-api''" and fn = "\<lambda>u. Returned (fetchMetalsApi u)"
        and post = "[(''fcsapi'', \<lambda>u. Returned (fetchFcsApi u)),
          (''goldprice.org'', \<lambda>u. Returned (fetchGoldPriceOrg u))]"
        and p = p_metals]
      providers_gold_split w_metals_first_fails w_metals_second w
      fetchGoldApiIo_w_metals fetchMetalsApi_w_metals
    by (simp add: p_metals_def)
qed

section \<open>Faults of the snapshot write\<close>



section \<open>Total failure\<close>

text \<open>
  C7. When the cache gives nothing (or is bypassed), every provider throws or returns
  \<^verbatim>\<open>null\<close>, and the snapshot fallback gives nothing, the route answers with the error
  JSON of status 500 and never anything else; the per-provider records
  \<open>(provider, message)\<close> are attached exactly when the request is in debug mode, one per
  provider in the order of the list, and for the three price routes (whose adapters catch
  their own faults) every message is ``No data in response''.
\<close>

theorem total_failure:
  assumes "map_of req ''debug'' = Some ''1''
         \<or> fst (getCachedPrice (now_ms w) (cacheKey rt) (priceCache w)) = None"
    and "\<forall>nf \<in> set (providers rt). \<forall>p. snd nf (up w) \<noteq> Returned (Some p)"
    and "getMonthlyFallback w = None"
  shows "fst (GET rt req w)
     = ErrorJson 500 (failure_text rt)
         (if map_of req ''debug'' = Some ''1''
          then Some (map (diagnostic (up w)) (providers rt))
          else None)
   \<and> (rt \<in> {gold, silver, silver_fx} \<longrightarrow>
        map (diagnostic (up w)) (providers rt)
          = map (\<lambda>nf. (fst nf, ''No data in response'')) (providers rt))"
proof -
  have diag: "rt \<in> {gold, silver, silver_fx} \<longrightarrow>
      map (diagnostic (up w)) (providers rt)
      = map (\<lambda>nf. (fst nf, ''No data in response'')) (providers rt)"
    by (auto simp: gold_def silver_def silver_fx_def diagnostic_def)
  have "fst (GET rt req w)
     = ErrorJson 500 (failure_text rt)
         (if map_of req ''debug'' = Some ''1''
          then Some (map (diagnostic (up w)) (providers rt)) else None)"
    unfolding GET_exhausted [OF assms(1,2)] by (simp add: assms(3))
  with diag show ?thesis by blast
qed

theorem total_failure_witness:
  "fetchGoldApiIo (up w_down) = None \<and> fetchMetalsApi (up w_down) = None
   \<and> fetchFcsApi (up w_down) = None \<and> fetchGoldPriceOrg (up w_down) = None
   \<and> getMonthlyFallback w_down = None
   \<and> fst (GET gold [(''debug'', ''1'')] w_down)
       = ErrorJson 500 ''Failed to fetch gold price from all providers''
           (Some [(''goldapi.io'', ''No data in response''), (''metals-api'', ''No data in response''),
                  (''fcsapi'', ''No data in response''), (''goldprice.org'', ''No data in response'')])
   \<and> fst (getCachedPrice (now_ms w_down) (cacheKey gold) (priceCache w_down)) = None
   \<and> fst (GET gold [] w_down) = ErrorJson 500 ''Failed to fetch gold price from all providers'' None"
proof -
  have adapters: "fetchGoldApiIo (up w_down) = None" "fetchMetalsApi (up w_down) = None"
    "fetchFcsApi (up w_down) = None" "fetchGoldPriceOrg (up w_down) = None"
    by (simp_all add: w_down_def u_down_def fetchGoldApiIo_def fetchMetalsApi_def
        fetchFcsApi_def fetchGoldPriceOrg_def)
  have fail: "\<forall>nf \<in> set (providers gold). \<forall>p. snd nf (up w_down) \<noteq> Returned (Some p)"
    by (simp add: gold_def adapters)
  have nofile: "getMonthlyFallback w_down = None"
    by (simp add: getMonthlyFallback_def w_down_def)
  have miss: "fst (getCachedPrice (now_ms w_down) (cacheKey gold) (priceCache w_down)) = None"
    by (simp add: getCachedPrice_def w_down_def)
  show ?thesis
    using total_failure [of "[(''debug'', ''1'')]" w_down gold] total_failure [of "[]" w_down gold]
      fail nofile miss adapters
    by (simp add: gold_def)
qed

section \<open>The nisab value\<close>

text \<open>
  C8, as the code has it. The first nisab route has no provider chain: it answers with a
  nisab value exactly when this server's gold route answered with a success status and a
  body without a truthy \<^verbatim>\<open>error\<close>, the value is the gram price of that body times 85,
  and the answer depends on nothing but that response. When the gold route answers with
  another status the route passes that status on, and answers 500 when the status cannot
  carry a body, as 304 cannot. The second nisab route resolves the price by itself, over
  goldapi.io, metals-api and fcsapi in this order: an entry of its cache that is not older
  than ten minutes is answered without a fetch and leaves the cache as it is; otherwise the
  first provider that returns a payload is answered, and cached unless the request is in
  debug mode; when the three of them fail the snapshot of the month is answered as it is
  read back from the file, where a price that is not finite reads as \<^verbatim>\<open>null\<close> and gives the
  nisab 0; when there is no snapshot either the route answers 500. Every nisab value of
  the second route is 85 times the number of the gram price in the same response. With an
  ounce price of 6274.64 the second route answers a gram price within 0.0001 of 201.7344
  and a nisab within 0.01 of 17147.42; with a gram price of 201.7344 from the gold route
  the first route answers a nisab within 0.01 of 17147.42.
\<close>

theorem nisab_value:
  "(api_gold u (map_of req ''debug'' = Some ''1'') = Response status (Some goldData)
      \<and> ok status \<and> get_prop goldData ''error'' = Some e \<and> \<not> truthy e
    \<longrightarrow> nisab_GET req u
        = NisabJson 200
            \<lparr>nisab = nmul (ToNumber u (opt_prop goldData ''price_gram_24k'')) (Fin 85),
             n_price_gram_24k = opt_prop goldData ''price_gram_24k'', nisab_grams = 85,
             n_currency = opt_prop goldData ''currency'',
             n_provider = opt_prop goldData ''provider'', n_type = JStr ''Gold'',
             n_cached = (if truthy (opt_prop goldData ''cached'')
                         then opt_prop goldData ''cached'' else JBool False)\<rparr>)
   \<and> (nisab_GET req u = NisabJson st n \<longrightarrow>
      (\<exists>status goldData e.
          api_gold u (map_of req ''debug'' = Some ''1'') = Response status (Some goldData)
          \<and> ok status \<and> get_prop goldData ''error'' = Some e \<and> \<not> truthy e
          \<and> n_price_gram_24k n = opt_prop goldData ''price_gram_24k''
          \<and> nisab n = nmul (ToNumber u (opt_prop goldData ''price_gram_24k'')) (Fin 85)))
   \<and> (api_gold u (map_of req ''debug'' = Some ''1'') = Response status body \<and> \<not> ok status
    \<longrightarrow> nisab_GET req u
        = (if sendable status then NisabError status (JStr ''Failed to fetch gold price'')
           else NisabError 500 (JStr ''Failed to calculate nisab value'')))
   \<and> (api_gold u' = api_gold u \<and> to_number u' = to_number u
    \<longrightarrow> nisab_GET req u' = nisab_GET req u)
   \<and> nisab_providers
       = [(''goldapi.io'', \<lambda>u. Returned (fetchGoldApiIo u)),
          (''metals-api'', \<lambda>u. Returned (fetchMetalsApi u)),
          (''fcsapi'', \<lambda>u. Returned (fetchFcsApi u))]
   \<and> (map_of req ''debug'' \<noteq> Some ''1''
      \<and> fst (getCachedPrice (now_ms w) ''XAU-CAD'' (priceCache w)) = Some c
    \<longrightarrow> nisab_GET_chain req w
        = (NisabJson 200
             \<lparr>nisab = nmul (price_gram_24k c) (Fin 85),
              n_price_gram_24k = JNum (price_gram_24k c), nisab_grams = 85,
              n_currency = JStr (currency c), n_provider = JStr (provider c),
              n_type = JStr ''Gold'', n_cached = JBool True\<rparr>,
           w))
   \<and> ((map_of req ''debug'' = Some ''1''
         \<or> fst (getCachedPrice (now_ms w) ''XAU-CAD'' (priceCache w)) = None)
      \<and> nisab_providers = pre @ (name, fn) # post
      \<and> (\<forall>nf \<in> set pre. \<forall>q. snd nf (up w) \<noteq> Returned (Some q))
      \<and> fn (up w) = Returned (Some p)
    \<longrightarrow> nisab_GET_chain req w
        = (NisabJson 200
             \<lparr>nisab = nmul (price_gram_24k p) (Fin 85),
              n_price_gram_24k = JNum (price_gram_24k p), nisab_grams = 85,
              n_currency = JStr (currency p), n_provider = JStr (provider p),
              n_type = JStr ''Gold'', n_cached = JBool False\<rparr>,
           if map_of req ''debug'' = Some ''1'' then w
           else w\<lparr>priceCache := setCachedPrice (now_ms w) ''XAU-CAD'' p (priceCache w)\<rparr>))
   \<and> ((map_of req ''debug'' = Some ''1''
         \<or> fst (getCachedPrice (now_ms w) ''XAU-CAD'' (priceCache w)) = None)
      \<and> fetchGoldApiIo (up w) = None \<and> fetchMetalsApi (up w) = None
      \<and> fetchFcsApi (up w) = None
    \<longrightarrow> fst (nisab_GET_chain req w)
        = (case getMonthlyFallback w of
             Some f \<Rightarrow>
               NisabJson 200
                 \<lparr>nisab = nmul (ToNumber (up w) (parsed_number (price_gram_24k f))) (Fin 85),
                  n_price_gram_24k = parsed_number (price_gram_24k f), nisab_grams = 85,
                  n_currency = JStr (currency f), n_provider = JStr ''monthly-fallback'',
                  n_type = JUndefined, n_cached = JBool False\<rparr>
           | None \<Rightarrow> NisabError 500 (JStr ''Failed to fetch nisab value from all providers'')))
   \<and> (fst (nisab_GET_chain req w) = NisabJson st' n'
    \<longrightarrow> nisab n' = nmul (ToNumber (up w) (n_price_gram_24k n')) (Fin 85))
   \<and> fst (nisab_GET_chain [] w_metals)
       = NisabJson 200
           \<lparr>nisab = Fin (6274.64 / 31.1034768 * 85),
            n_price_gram_24k = JNum (Fin (6274.64 / 31.1034768)), nisab_grams = 85,
            n_currency = JStr ''CAD'', n_provider = JStr ''metals-api'', n_type = JStr ''Gold'',
            n_cached = JBool False\<rparr>
   \<and> \<bar>6274.64 / 31.1034768 - 201.7344\<bar> < (1 / 10000 :: real)
   \<and> \<bar>6274.64 / 31.1034768 * 85 - 17147.42\<bar> < (1 / 100 :: real)
   \<and> nisab_GET [] u_gold_ok
       = NisabJson 200
           \<lparr>nisab = Fin (201.7344 * 85), n_price_gram_24k = JNum (Fin 201.7344),
            nisab_grams = 85, n_currency = JStr ''CAD'',
            n_provider = JStr ''goldapi.io (GOLD_API_KEY_1)'', n_type = JStr ''Gold'',
            n_cached = JBool False\<rparr>
   \<and> \<bar>201.7344 * 85 - 17147.42\<bar> < (1 / 100 :: real)"
proof -
  have fallback: "(map_of req ''debug'' = Some ''1''
         \<or> fst (getCachedPrice (now_ms w) ''XAU-CAD'' (priceCache w)) = None)
      \<and> fetchGoldApiIo (up w) = None \<and> fetchMetalsApi (up w) = None
      \<and> fetchFcsApi (up w) = None
    \<longrightarrow> fst (nisab_GET_chain req w)
        = (case getMonthlyFallback w of
             Some f \<Rightarrow>
               NisabJson 200
                 \<lparr>nisab = nmul (ToNumber (up w) (parsed_number (price_gram_24k f))) (Fin 85),
                  n_price_gram_24k = parsed_number (price_gram_24k f), nisab_grams = 85,
                  n_currency = JStr (currency f), n_provider = JStr ''monthly-fallback'',
                  n_type = JUndefined, n_cached = JBool False\<rparr>
           | None \<Rightarrow> NisabError 500 (JStr ''Failed to fetch nisab value from all providers''))"
  proof
    assume a: "(map_of req ''debug'' = Some ''1''
         \<or> fst (getCachedPrice (now_ms w) ''XAU-CAD'' (priceCache w)) = None)
      \<and> fetchGoldApiIo (up w) = None \<and> fetchMetalsApi (up w) = None
      \<and> fetchFcsApi (up w) = None"
    then have miss: "map_of req ''debug'' = Some ''1''
         \<or> fst (getCachedPrice (now_ms w) ''XAU-CAD'' (priceCache w)) = None"
      by simp
    have fail: "\<forall>nf \<in> set nisab_providers. \<forall>p. snd nf (up w) \<noteq> Returned (Some p)"
      using a by (simp add: nisab_providers_def)
    show "fst (nisab_GET_chain req w)
        = (case getMonthlyFallback w of
             Some f \<Rightarrow>
               NisabJson 200
                 \<lparr>nisab = nmul (ToNumber (up w) (parsed_number (price_gram_24k f))) (Fin 85),
                  n_price_gram_24k = parsed_number (price_gram_24k f), nisab_grams = 85,
                  n_currency = JStr (currency f), n_provider = JStr ''monthly-fallback'',
                  n_type = JUndefined, n_cached = JBool False\<rparr>
           | None \<Rightarrow> NisabError 500 (JStr ''Failed to fetch nisab value from all providers''))"
      unfolding nisab_GET_chain_exhausted [OF miss fail]
      by (auto split: option.splits dest: getMonthlyFallback_provider)
  qed
  have ps: "nisab_providers
       = [(''goldapi.io'', \<lambda>u. Returned (fetchGoldApiIo u)),
          (''metals-api'', \<lambda>u. Returned (fetchMetalsApi u)),
          (''fcsapi'', \<lambda>u. Returned (fetchFcsApi u))]"
    by (simp add: nisab_providers_def)
  have ex: "fst (nisab_GET_chain [] w_metals)
       = NisabJson 200
           \<lparr>nisab = Fin (6274.64 / 31.1034768 * 85),
            n_price_gram_24k = JNum (Fin (6274.64 / 31.1034768)), nisab_grams = 85,
            n_currency = JStr ''CAD'', n_provider = JStr ''metals-api'', n_type = JStr ''Gold'',
            n_cached = JBool False\<rparr>"
    by (simp add: nisab_GET_chain_w_metals)
  show ?thesis
    using nisab_GET_answers [of u req status goldData e] nisab_GET_value [of req u st n]
      nisab_GET_refused [of u req status body] nisab_GET_only_gold [of u' u req]
      nisab_GET_chain_hit [of req w c] nisab_GET_chain_live [of req w pre name fn post p]
      nisab_GET_chain_product [of req w st' n'] fallback ps ex
      nisab_GET_u_gold_ok nisab_example_bounds
    by blast
qed

theorem nisab_value_counterexample:
  "fst (GET gold [(''grams'', ''true'')] w_scrape)
     = Json 200 \<lparr>price_oz = Fin 6274.64, price_gram_24k = Fin (6274.64 / 31.1034768),
         currency = ''CAD'', provider = ''goldprice.org'', cached = Some False,
         price = Fin (6274.64 / 31.1034768)\<rparr>
   \<and> fst (nisab_GET_chain [] w_scrape)
       = NisabError 500 (JStr ''Failed to fetch nisab value from all providers'')"
  using GET_gold_w_scrape [of "[(''grams'', ''true'')]"] nisab_GET_chain_w_scrape
  by simp

theorem nisab_value_witness:
  "api_gold u_gold_ok (map_of [] ''debug'' = Some ''1'') = Response 200 (Some gold_body)
   \<and> ok 200 \<and> get_prop gold_body ''error'' = Some JUndefined \<and> \<not> truthy JUndefined
   \<and> nisab_GET [] u_gold_ok
       = NisabJson 200
           \<lparr>nisab = Fin (201.7344 * 85), n_price_gram_24k = JNum (Fin 201.7344),
            nisab_grams = 85, n_currency = JStr ''CAD'',
            n_provider = JStr ''goldapi.io (GOLD_API_KEY_1)'', n_type = JStr ''Gold'',
            n_cached = JBool False\<rparr>
   \<and> api_gold u_gold_304 (map_of [] ''debug'' = Some ''1'') = Response 304 None
   \<and> \<not> ok 304 \<and> \<not> sendable 304
   \<and> nisab_GET [] u_gold_304 = NisabError 500 (JStr ''Failed to calculate nisab value'')
   \<and> map_of [] ''debug'' \<noteq> Some ''1''
   \<and> fst (getCachedPrice (now_ms w_cached) ''XAU-CAD'' (priceCache w_cached))
       = Some (p_metals\<lparr>cached := Some True\<rparr>)
   \<and> fetchGoldApiIo (up w_cached) = None \<and> fetchMetalsApi (up w_cached) = None
   \<and> fetchFcsApi (up w_cached) = None
   \<and> nisab_GET_chain [] w_cached
       = (NisabJson 200
            \<lparr>nisab = Fin (6274.64 / 31.1034768 * 85),
             n_price_gram_24k = JNum (Fin (6274.64 / 31.1034768)), nisab_grams = 85,
             n_currency = JStr ''CAD'', n_provider = JStr ''metals-api'',
             n_type = JStr ''Gold'', n_cached = JBool True\<rparr>,
          w_cached)
   \<and> fst (getCachedPrice (now_ms w_metals) ''XAU-CAD'' (priceCache w_metals)) = None
   \<and> fetchGoldApiIo (up w_metals) = None \<and> fetchMetalsApi (up w_metals) = Some p_metals
   \<and> nisab_GET_chain [] w_metals
       = (NisabJson 200
            \<lparr>nisab = Fin (6274.64 / 31.1034768 * 85),
             n_price_gram_24k = JNum (Fin (6274.64 / 31.1034768)), nisab_grams = 85,
             n_currency = JStr ''CAD'', n_provider = JStr ''metals-api'',
             n_type = JStr ''Gold'', n_cached = JBool False\<rparr>,
          w_metals\<lparr>priceCache := [''XAU-CAD'' \<mapsto> \<lparr>ts = 1712000000000, data = p_metals\<rparr>]\<rparr>)
   \<and> fst (getCachedPrice (now_ms w_null_price) ''XAU-CAD'' (priceCache w_null_price)) = None
   \<and> fetchGoldApiIo (up w_null_price) = None \<and> fetchMetalsApi (up w_null_price) = None
   \<and> fetchFcsApi (up w_null_price) = None
   \<and> getMonthlyFallback w_null_price
       = Some \<lparr>price_oz = PosInf, price_gram_24k = PosInf, currency = ''CAD'',
               provider = ''monthly-fallback'', cached = Some True, price = PosInf,
               timestamp = ''2024-04-01T10:00:00.000Z''\<rparr>
   \<and> fst (nisab_GET_chain [] w_null_price)
       = NisabJson 200
           \<lparr>nisab = Fin 0, n_price_gram_24k = JNull, nisab_grams = 85,
            n_currency = JStr ''CAD'', n_provider = JStr ''monthly-fallback'',
            n_type = JUndefined, n_cached = JBool False\<rparr>
   \<and> fst (getCachedPrice (now_ms w_down) ''XAU-CAD'' (priceCache w_down)) = None
   \<and> fetchGoldApiIo (up w_down) = None \<and> fetchMetalsApi (up w_down) = None
   \<and> fetchFcsApi (up w_down) = None
   \<and> getMonthlyFallback w_down = None
   \<and> fst (nisab_GET_chain [] w_down)
       = NisabError 500 (JStr ''Failed to fetch nisab value from all providers'')"
proof -
  have gold: "api_gold u_gold_ok (map_of [] ''debug'' = Some ''1'') = Response 200 (Some gold_body)"
    "ok 200" "get_prop gold_body ''error'' = Some JUndefined" "\<not> truthy JUndefined"
    by (simp_all add: u_gold_ok_def u_down_def ok_def gold_body_def)
  have g304: "api_gold u_gold_304 (map_of [] ''debug'' = Some ''1'') = Response 304 None"
    "\<not> ok 304" "\<not> sendable 304"
    by (simp_all add: u_gold_304_def u_down_def ok_def sendable_def)
  have nodebug: "map_of [] ''debug'' \<noteq> Some ''1''"
    by simp
  have down: "fetchGoldApiIo (up w_cached) = None" "fetchMetalsApi (up w_cached) = None"
    "fetchFcsApi (up w_cached) = None"
    "fetchGoldApiIo (up w_null_price) = None" "fetchMetalsApi (up w_null_price) = None"
    "fetchFcsApi (up w_null_price) = None"
    "fetchGoldApiIo (up w_down) = None" "fetchMetalsApi (up w_down) = None"
    "fetchFcsApi (up w_down) = None"
    by (simp_all add: w_cached_def w_null_price_def w_down_def u_down_fails)
  have miss: "fst (getCachedPrice (now_ms w_metals) ''XAU-CAD'' (priceCache w_metals)) = None"
    "fst (getCachedPrice (now_ms w_null_price) ''XAU-CAD'' (priceCache w_null_price)) = None"
    "fst (getCachedPrice (now_ms w_down) ''XAU-CAD'' (priceCache w_down)) = None"
    by (simp_all add: getCachedPrice_def priceCache_w_metals w_null_price_def w_down_def)
  have nofile: "getMonthlyFallback w_down = None"
    by (simp add: getMonthlyFallback_def w_down_def)
  have ps: "nisab_providers
     = [(''goldapi.io'', \<lambda>u. Returned (fetchGoldApiIo u))]
       @ (''metals-api'', \<lambda>u. Returned (fetchMetalsApi u))
       # [(''fcsapi'', \<lambda>u. Returned (fetchFcsApi u))]"
    by (simp add: nisab_providers_def)
  have first: "nisab_GET [] u_gold_ok
       = NisabJson 200
           \<lparr>nisab = Fin (201.7344 * 85), n_price_gram_24k = JNum (Fin 201.7344),
            nisab_grams = 85, n_currency = JStr ''CAD'',
            n_provider = JStr ''goldapi.io (GOLD_API_KEY_1)'', n_type = JStr ''Gold'',
            n_cached = JBool False\<rparr>"
    using nisab_value [where req = "[]" and u = u_gold_ok and status = 200
        and goldData = gold_body and e = JUndefined, THEN conjunct1] gold
    by (simp add: gold_body_def ToNumber_def)
  have refused: "nisab_GET [] u_gold_304
       = NisabError 500 (JStr ''Failed to calculate nisab value'')"
    using nisab_value [where req = "[]" and u = u_gold_304 and status = 304 and body = None,
        THEN conjunct2, THEN conjunct2, THEN conjunct1] g304
    by simp
  have hit: "nisab_GET_chain [] w_cached
       = (NisabJson 200
            \<lparr>nisab = Fin (6274.64 / 31.1034768 * 85),
             n_price_gram_24k = JNum (Fin (6274.64 / 31.1034768)), nisab_grams = 85,
             n_currency = JStr ''CAD'', n_provider = JStr ''metals-api'',
             n_type = JStr ''Gold'', n_cached = JBool True\<rparr>,
          w_cached)"
    using nisab_value [where req = "[]" and w = w_cached
        and c = "p_metals\<lparr>cached := Some True\<rparr>",
        THEN conjunct2, THEN conjunct2, THEN conjunct2, THEN conjunct2, THEN conjunct2,
        THEN conjunct1] nodebug w_cached_hit
    by (simp add: p_metals_def)
  have live: "nisab_GET_chain [] w_metals
       = (NisabJson 200
            \<lparr>nisab = Fin (6274.64 / 31.1034768 * 85),
             n_price_gram_24k = JNum (Fin (6274.64 / 31.1034768)), nisab_grams = 85,
             n_currency = JStr ''CAD'', n_provider = JStr ''metals-api'',
             n_type = JStr ''Gold'', n_cached = JBool False\<rparr>,
          w_metals\<lparr>priceCache := [''XAU-CAD'' \<mapsto> \<lparr>ts = 1712000000000, data = p_metals\<rparr>]\<rparr>)"
  proof -
    have now: "now_ms w_metals = 1712000000000"
      by (simp add: w_metals_def w_down_def)
    have step: "nisab_GET_chain [] w_metals
       = (NisabJson 200
             \<lparr>nisab = nmul (price_gram_24k p_metals) (Fin 85),
              n_price_gram_24k = JNum (price_gram_24k p_metals), nisab_grams = 85,
              n_currency = JStr (currency p_metals), n_provider = JStr (provider p_metals),
              n_type = JStr ''Gold'', n_cached = JBool False\<rparr>,
           w_metals\<lparr>priceCache :=
             setCachedPrice (now_ms w_metals) ''XAU-CAD'' p_metals (priceCache w_metals)\<rparr>)"
      using nisab_value [where req = "[]" and w = w_metals
          and pre = "[(''goldapi.io'', \<lambda>u. Returned (fetchGoldApiIo u))]"
          and name = "''metals-api''" and fn = "\<lambda>u. Returned (fetchMetalsApi u)"
          and post = "[(''fcsapi'', \<lambda>u. Returned (fetchFcsApi u))]" and p = p_metals,
          THEN conjunct2, THEN conjunct2, THEN conjunct2, THEN conjunct2, THEN conjunct2,
          THEN conjunct2, THEN conjunct1]
        miss(1) ps fetchGoldApiIo_w_metals fetchMetalsApi_w_metals
      by simp
    show ?thesis
      unfolding step by (simp add: p_metals_def setCachedPrice_def priceCache_w_metals now)
  qed
  have fallback: "fst (nisab_GET_chain [] w_null_price)
       = NisabJson 200
           \<lparr>nisab = Fin 0, n_price_gram_24k = JNull, nisab_grams = 85,
            n_currency = JStr ''CAD'', n_provider = JStr ''monthly-fallback'',
            n_type = JUndefined, n_cached = JBool False\<rparr>"
    using nisab_value [where req = "[]" and w = w_null_price,
        THEN conjunct2, THEN conjunct2, THEN conjunct2, THEN conjunct2, THEN conjunct2,
        THEN conjunct2, THEN conjunct2, THEN conjunct1]
      miss(2) down(4-6) w_null_price_fallback
    by (simp add: parsed_number_def ToNumber_def)
  have failure: "fst (nisab_GET_chain [] w_down)
       = NisabError 500 (JStr ''Failed to fetch nisab value from all providers'')"
    using nisab_value [where req = "[]" and w = w_down,
        THEN conjunct2, THEN conjunct2, THEN conjunct2, THEN conjunct2, THEN conjunct2,
        THEN conjunct2, THEN conjunct2, THEN conjunct1]
      miss(3) down(7-9) nofile
    by simp
  show ?thesis
    using gold g304 nodebug down miss nofile first refused hit live fallback failure
      w_cached_hit w_null_price_fallback fetchGoldApiIo_w_metals fetchMetalsApi_w_metals
    by simp
qed

section \<open>The exchange rate of the silver fcsapi adapter\<close>

text \<open>
  C9, as the code has it. When the key is set, the ticker is found with a truthy price and
  the forex endpoint answers with a success status and a JSON body, the adapter of the
  second silver route returns a payload: its ounce price is the USD price of the ticker
  times the \<^verbatim>\<open>rate\<close> of that body, or times 1.4 when the body has no truthy \<^verbatim>\<open>rate\<close>, as
  when the rate is missing or 0. The adapter returns a payload in no other case. When the
  forex fetch is rejected, answers with another status or a body that is not JSON, the
  adapter returns \<^verbatim>\<open>null\<close>.
\<close>

theorem fx_fallback_rate:
  "(FCS_API_KEY u = Some key \<and> key \<noteq> []
      \<and> fcsapi u key = Response status (Some silverData) \<and> ok status
      \<and> response_find (opt_prop silverData ''response'') = Some silverTicker
      \<and> truthy (opt_prop (opt_prop silverTicker ''active'') ''c'')
      \<and> fx u = Response fx_status (Some forexData) \<and> ok fx_status
    \<longrightarrow> fetchFcsApi_fx u
        = Some \<lparr>price_oz = nmul (ToNumber u (opt_prop (opt_prop silverTicker ''active'') ''c''))
                   (if truthy (opt_prop forexData ''rate'')
                    then ToNumber u (opt_prop forexData ''rate'') else Fin 1.4),
                price_gram_24k =
                  ndiv (nmul (ToNumber u (opt_prop (opt_prop silverTicker ''active'') ''c''))
                         (if truthy (opt_prop forexData ''rate'')
                          then ToNumber u (opt_prop forexData ''rate'') else Fin 1.4))
                       (Fin 31.1034768),
                currency = ''CAD'', provider = ''fcsapi'', cached = None\<rparr>)
   \<and> (FCS_API_KEY u = Some key \<and> key \<noteq> []
      \<and> fcsapi u key = Response status (Some silverData) \<and> ok status
      \<and> response_find (opt_prop silverData ''response'') = Some silverTicker
      \<and> truthy (opt_prop (opt_prop silverTicker ''active'') ''c'')
      \<and> fx u = Response fx_status (Some forexData) \<and> ok fx_status
      \<and> \<not> truthy (opt_prop forexData ''rate'')
    \<longrightarrow> (\<exists>p. fetchFcsApi_fx u = Some p
          \<and> price_oz p
             = nmul (ToNumber u (opt_prop (opt_prop silverTicker ''active'') ''c'')) (Fin 1.4)))
   \<and> (fetchFcsApi_fx u = Some p \<longrightarrow>
      (\<exists>key status silverData silverTicker fx_status forexData.
        FCS_API_KEY u = Some key \<and> fcsapi u key = Response status (Some silverData) \<and> ok status
        \<and> response_find (opt_prop silverData ''response'') = Some silverTicker
        \<and> truthy (opt_prop (opt_prop silverTicker ''active'') ''c'')
        \<and> fx u = Response fx_status (Some forexData) \<and> ok fx_status
        \<and> price_oz p
           = nmul (ToNumber u (opt_prop (opt_prop silverTicker ''active'') ''c''))
               (if truthy (opt_prop forexData ''rate'')
                then ToNumber u (opt_prop forexData ''rate'') else Fin 1.4)))
   \<and> (fx u = NetworkError
       \<or> (\<exists>status body. fx u = Response status body \<and> (\<not> ok status \<or> body = None))
      \<longrightarrow> fetchFcsApi_fx u = None)"
proof -
  have with_rate: "FCS_API_KEY u = Some key \<and> key \<noteq> []
      \<and> fcsapi u key = Response status (Some silverData) \<and> ok status
      \<and> response_find (opt_prop silverData ''response'') = Some silverTicker
      \<and> truthy (opt_prop (opt_prop silverTicker ''active'') ''c'')
      \<and> fx u = Response fx_status (Some forexData) \<and> ok fx_status
    \<longrightarrow> fetchFcsApi_fx u
        = Some \<lparr>price_oz = nmul (ToNumber u (opt_prop (opt_prop silverTicker ''active'') ''c''))
                   (if truthy (opt_prop forexData ''rate'')
                    then ToNumber u (opt_prop forexData ''rate'') else Fin 1.4),
                price_gram_24k =
                  ndiv (nmul (ToNumber u (opt_prop (opt_prop silverTicker ''active'') ''c''))
                         (if truthy (opt_prop forexData ''rate'')
                          then ToNumber u (opt_prop forexData ''rate'') else Fin 1.4))
                       (Fin 31.1034768),
                currency = ''CAD'', provider = ''fcsapi'', cached = None\<rparr>"
    using fetchFcsApi_fx_answers [of u key status silverData silverTicker fx_status forexData]
    by (intro impI) (elim conjE, assumption)
  have no_rate: "FCS_API_KEY u = Some key \<and> key \<noteq> []
      \<and> fcsapi u key = Response status (Some silverData) \<and> ok status
      \<and> response_find (opt_prop silverData ''response'') = Some silverTicker
      \<and> truthy (opt_prop (opt_prop silverTicker ''active'') ''c'')
      \<and> fx u = Response fx_status (Some forexData) \<and> ok fx_status
      \<and> \<not> truthy (opt_prop forexData ''rate'')
    \<longrightarrow> (\<exists>p. fetchFcsApi_fx u = Some p
          \<and> price_oz p
             = nmul (ToNumber u (opt_prop (opt_prop silverTicker ''active'') ''c'')) (Fin 1.4))"
    using fetchFcsApi_fx_answers [of u key status silverData silverTicker fx_status forexData]
    by simp
  have only_so: "fetchFcsApi_fx u = Some p \<longrightarrow>
      (\<exists>key status silverData silverTicker fx_status forexData.
        FCS_API_KEY u = Some key \<and> fcsapi u key = Response status (Some silverData) \<and> ok status
        \<and> response_find (opt_prop silverData ''response'') = Some silverTicker
        \<and> truthy (opt_prop (opt_prop silverTicker ''active'') ''c'')
        \<and> fx u = Response fx_status (Some forexData) \<and> ok fx_status
        \<and> price_oz p
           = nmul (ToNumber u (opt_prop (opt_prop silverTicker ''active'') ''c''))
               (if truthy (opt_prop forexData ''rate'')
                then ToNumber u (opt_prop forexData ''rate'') else Fin 1.4))"
    by (rule impI) (rule fetchFcsApi_fx_rate)
  have fails: "fx u = NetworkError
       \<or> (\<exists>status body. fx u = Response status body \<and> (\<not> ok status \<or> body = None))
      \<longrightarrow> fetchFcsApi_fx u = None"
    by (rule impI) (rule fetchFcsApi_fx_fails)
  show ?thesis
    by (rule conjI [OF with_rate conjI [OF no_rate conjI [OF only_so fails]]])
qed

theorem fx_fallback_rate_counterexample:
  "fx u_fx_503 = Response 503 None
   \<and> fetchFcsApi_fx u_fx_503 = None
   \<and> fx u_fx_norate = Response 200 (Some (JObj []))
   \<and> fetchFcsApi_fx u_fx_norate
       = Some \<lparr>price_oz = Fin 42, price_gram_24k = Fin (42 / 31.1034768), currency = ''CAD'',
               provider = ''fcsapi'', cached = None\<rparr>"
  using fetchFcsApi_fx_u_fx_503 fetchFcsApi_fx_u_fx_norate
  by (simp add: u_fx_503_def u_fx_norate_def)

theorem fx_fallback_rate_witness:
  "FCS_API_KEY u_fx_zero = Some ''f-key'' \<and> ''f-key'' \<noteq> []
   \<and> fcsapi u_fx_zero ''f-key''
       = Response 200 (Some (JObj [(''response'',
           JArr [JObj [(''ticker'', JStr ''FCM:XAGUSD''),
                       (''active'', JObj [(''c'', JNum (Fin 30))])]])]))
   \<and> ok 200
   \<and> response_find (JArr [JObj [(''ticker'', JStr ''FCM:XAGUSD''),
                                 (''active'', JObj [(''c'', JNum (Fin 30))])]])
       = Some (JObj [(''ticker'', JStr ''FCM:XAGUSD''), (''active'', JObj [(''c'', JNum (Fin 30))])])
   \<and> truthy (JNum (Fin 30))
   \<and> fx u_fx_zero = Response 200 (Some (JObj [(''rate'', JNum (Fin 0))]))
   \<and> \<not> truthy (JNum (Fin 0))
   \<and> fetchFcsApi_fx u_fx_zero
       = Some \<lparr>price_oz = Fin 42, price_gram_24k = Fin (42 / 31.1034768), currency = ''CAD'',
               provider = ''fcsapi'', cached = None\<rparr>
   \<and> fx u_fx_norate = Response 200 (Some (JObj []))
   \<and> fetchFcsApi_fx u_fx_norate
       = Some \<lparr>price_oz = Fin 42, price_gram_24k = Fin (42 / 31.1034768), currency = ''CAD'',
               provider = ''fcsapi'', cached = None\<rparr>
   \<and> fx u_fx_503 = Response 503 None \<and> \<not> ok 503
   \<and> fetchFcsApi_fx u_fx_503 = None"
proof -
  have key: "FCS_API_KEY u_fx_zero = Some ''f-key''" "FCS_API_KEY u_fx_norate = Some ''f-key''"
    by (simp_all add: u_fx_zero_def u_fx_norate_def u_fx_503_def)
  have silver: "fcsapi u_fx_zero ''f-key''
       = Response 200 (Some (JObj [(''response'',
           JArr [JObj [(''ticker'', JStr ''FCM:XAGUSD''),
                       (''active'', JObj [(''c'', JNum (Fin 30))])]])]))"
    "fcsapi u_fx_norate ''f-key''
       = Response 200 (Some (JObj [(''response'',
           JArr [JObj [(''ticker'', JStr ''FCM:XAGUSD''),
                       (''active'', JObj [(''c'', JNum (Fin 30))])]])]))"
    by (simp_all add: u_fx_zero_def u_fx_norate_def u_fx_503_def)
  have fx: "fx u_fx_zero = Response 200 (Some (JObj [(''rate'', JNum (Fin 0))]))"
    "fx u_fx_norate = Response 200 (Some (JObj []))"
    "fx u_fx_503 = Response 503 None"
    by (simp_all add: u_fx_zero_def u_fx_norate_def u_fx_503_def)
  have oks: "ok 200" "\<not> ok 503"
    by (simp_all add: ok_def)
  have failing: "fx u_fx_503 = NetworkError
       \<or> (\<exists>status body. fx u_fx_503 = Response status body \<and> (\<not> ok status \<or> body = None))"
    using fx(3) by simp
  have zero: "fetchFcsApi_fx u_fx_zero
       = Some \<lparr>price_oz = Fin 42, price_gram_24k = Fin (42 / 31.1034768), currency = ''CAD'',
               provider = ''fcsapi'', cached = None\<rparr>"
    using fx_fallback_rate [where u = u_fx_zero and key = "''f-key''" and status = 200
        and silverData = "JObj [(''response'',
           JArr [JObj [(''ticker'', JStr ''FCM:XAGUSD''),
                       (''active'', JObj [(''c'', JNum (Fin 30))])]])]"
        and silverTicker = "JObj [(''ticker'', JStr ''FCM:XAGUSD''),
                       (''active'', JObj [(''c'', JNum (Fin 30))])]"
        and fx_status = 200 and forexData = "JObj [(''rate'', JNum (Fin 0))]",
        THEN conjunct1]
      key(1) silver(1) fx(1) oks(1)
    by (simp add: ToNumber_def)
  have norate: "fetchFcsApi_fx u_fx_norate
       = Some \<lparr>price_oz = Fin 42, price_gram_24k = Fin (42 / 31.1034768), currency = ''CAD'',
               provider = ''fcsapi'', cached = None\<rparr>"
    using fx_fallback_rate [where u = u_fx_norate and key = "''f-key''" and status = 200
        and silverData = "JObj [(''response'',
           JArr [JObj [(''ticker'', JStr ''FCM:XAGUSD''),
                       (''active'', JObj [(''c'', JNum (Fin 30))])]])]"
        and silverTicker = "JObj [(''ticker'', JStr ''FCM:XAGUSD''),
                       (''active'', JObj [(''c'', JNum (Fin 30))])]"
        and fx_status = 200 and forexData = "JObj []",
        THEN conjunct1]
      key(2) silver(2) fx(2) oks(1)
    by (simp add: ToNumber_def)
  have refused: "fetchFcsApi_fx u_fx_503 = None"
    using fx_fallback_rate [where u = u_fx_503,
        THEN conjunct2, THEN conjunct2, THEN conjunct2] failing
    by (rule mp)
  have ticker: "response_find (JArr [JObj [(''ticker'', JStr ''FCM:XAGUSD''),
                                 (''active'', JObj [(''c'', JNum (Fin 30))])]])
       = Some (JObj [(''ticker'', JStr ''FCM:XAGUSD''), (''active'', JObj [(''c'', JNum (Fin 30))])])"
    by simp
  show ?thesis
    using key(1) silver(1) fx oks zero norate refused ticker by simp
qed

section \<open>The price field\<close>

text \<open>
  C10. In every success response of a price route, from the cache, from a provider or from
  the snapshot fallback, \<^verbatim>\<open>price\<close> is \<^verbatim>\<open>price_gram_24k\<close> when the query has
  \<^verbatim>\<open>grams=true\<close> and \<^verbatim>\<open>price_oz\<close> otherwise.
\<close>

theorem price_field:
  "fst (GET rt req w) = Json st r \<Longrightarrow>
   price r = (if map_of req ''grams'' = Some ''true'' then price_gram_24k r else price_oz r)"
  unfolding GET_def Let_def
  by (auto simp: case_prod_beta split: option.splits sum.splits if_splits
      dest: provider_loop_price [where grams = True, simplified]
        provider_loop_price [where grams = False, simplified])

theorem price_field_witness:
  "fst (GET gold [(''grams'', ''true'')] w_metals)
     = Json 200 \<lparr>price_oz = Fin 6274.64, price_gram_24k = Fin (6274.64 / 31.1034768),
         currency = ''CAD'', provider = ''metals-api'', cached = Some False,
         price = Fin (6274.64 / 31.1034768)\<rparr>
   \<and> price \<lparr>price_oz = Fin 6274.64, price_gram_24k = Fin (6274.64 / 31.1034768),
         currency = ''CAD'', provider = ''metals-api'', cached = Some False,
         price = Fin (6274.64 / 31.1034768)\<rparr>
       = price_gram_24k \<lparr>price_oz = Fin 6274.64, price_gram_24k = Fin (6274.64 / 31.1034768),
         currency = ''CAD'', provider = ''metals-api'', cached = Some False,
         price = Fin (6274.64 / 31.1034768)\<rparr>"
proof -
  have ps: "providers gold
     = [(''goldapi.io'', \<lambda>u. Returned (fetchGoldApiIo u))]
       @ (''metals-api'', \<lambda>u. Returned (fetchMetalsApi u))
       # [(''fcsapi'', \<lambda>u. Returned (fetchFcsApi u)),
          (''goldprice.org'', \<lambda>u. Returned (fetchGoldPriceOrg u))]"
    by (simp add: gold_def)
  have g: "fst (GET gold [(''grams'', ''true'')] w_metals)
     = Json 200 \<lparr>price_oz = Fin 6274.64, price_gram_24k = Fin (6274.64 / 31.1034768),
         currency = ''CAD'', provider = ''metals-api'', cached = Some False,
         price = Fin (6274.64 / 31.1034768)\<rparr>"
    using GET_live [OF ps, of w_metals p_metals "[(''grams'', ''true'')]"]
    by (simp add: fetchGoldApiIo_w_metals fetchMetalsApi_w_metals getCachedPrice_def
        priceCache_w_metals p_metals_def)
  from price_field [OF g] g show ?thesis by simp
qed

end
